theory Spec2Isabelle
  imports Complex_Main
begin

section \<open>Text utilities\<close>

text \<open>
  Python strings are modelled as \<^typ>\<open>string\<close>. The model covers ASCII text: case
  folding, whitespace and word characters are the ASCII ones (for code points below 128
  they are what \<^verbatim>\<open>str.lower\<close>, \<^verbatim>\<open>str.strip\<close> and the \<^verbatim>\<open>re\<close> classes \<^verbatim>\<open>\s\<close>, \<^verbatim>\<open>\w\<close> use).
\<close>

definition is_space :: "char \<Rightarrow> bool" where
  "is_space c = (let n = (of_char c :: int) in (9 \<le> n \<and> n \<le> 13) \<or> (28 \<le> n \<and> n \<le> 32))"

definition is_upper :: "char \<Rightarrow> bool" where
  "is_upper c = (let n = (of_char c :: int) in 65 \<le> n \<and> n \<le> 90)"

definition is_lower :: "char \<Rightarrow> bool" where
  "is_lower c = (let n = (of_char c :: int) in 97 \<le> n \<and> n \<le> 122)"

definition is_digit :: "char \<Rightarrow> bool" where
  "is_digit c = (let n = (of_char c :: int) in 48 \<le> n \<and> n \<le> 57)"

definition is_word :: "char \<Rightarrow> bool" where
  "is_word c = (is_upper c \<or> is_lower c \<or> is_digit c \<or> c = CHR ''_'')"

definition lower_char :: "char \<Rightarrow> char" where
  "lower_char c = (if is_upper c then char_of ((of_char c :: int) + 32) else c)"

definition upper_char :: "char \<Rightarrow> char" where
  "upper_char c = (if is_lower c then char_of ((of_char c :: int) - 32) else c)"

definition lower :: "string \<Rightarrow> string" where
  "lower s = map lower_char s"

definition upper :: "string \<Rightarrow> string" where
  "upper s = map upper_char s"

definition strip :: "string \<Rightarrow> string" where
  "strip s = rev (dropWhile is_space (rev (dropWhile is_space s)))"

definition startswith :: "string \<Rightarrow> string \<Rightarrow> bool" where
  "startswith s p = (take (length p) s = p)"

text \<open>\<^verbatim>\<open>k in text\<close> on strings: \<open>k\<close> occurs as a contiguous piece of \<open>text\<close>.\<close>

fun contains :: "string \<Rightarrow> string \<Rightarrow> bool" where
  "contains [] k = (k = [])"
| "contains (c # cs) k = (startswith (c # cs) k \<or> contains cs k)"

section \<open>Regular expressions\<close>

text \<open>
  The patterns of the program are kept as data and run by a backtracking matcher with the
  priorities of Python's \<^verbatim>\<open>re\<close>: alternatives left to right, \<^verbatim>\<open>+\<close> and \<^verbatim>\<open>?\<close> greedy,
  \<^verbatim>\<open>search\<close> taking the leftmost start. Every pattern of the program is compiled with
  \<^verbatim>\<open>re.I\<close>, so literal text is compared ignoring case.
\<close>

datatype re =
    Str string
  | AnyCh
  | Space
  | WordB
  | Bol
  | Eol
  | Seq re re
  | Alt re re
  | Plus re
  | Opt re
  | Group nat re

text \<open>
  A matcher state: the text before the position (reversed), the text from the position on,
  and the groups captured so far.
\<close>

type_synonym mstate = "string \<times> string \<times> (nat \<times> string) list"

definition word_before :: "string \<Rightarrow> bool" where
  "word_before b = (case b of [] \<Rightarrow> False | c # _ \<Rightarrow> is_word c)"

fun plus_iter :: "nat \<Rightarrow> (mstate \<Rightarrow> mstate list) \<Rightarrow> mstate \<Rightarrow> mstate list" where
  "plus_iter 0 f st = []"
| "plus_iter (Suc n) f st =
     concat (map (\<lambda>st'. (if length (fst (snd st')) < length (fst (snd st))
                          then plus_iter n f st' else []) @ [st'])
                 (f st))"

primrec run :: "re \<Rightarrow> mstate \<Rightarrow> mstate list" where
  "run (Str s) st =
     (case st of (b, r, g) \<Rightarrow>
        if length s \<le> length r \<and> lower (take (length s) r) = lower s
        then [(rev (take (length s) r) @ b, drop (length s) r, g)] else [])"
| "run AnyCh st =
     (case st of (b, r, g) \<Rightarrow>
        (case r of [] \<Rightarrow> [] | c # cs \<Rightarrow> if c = CHR 0x0A then [] else [(c # b, cs, g)]))"
| "run Space st =
     (case st of (b, r, g) \<Rightarrow>
        (case r of [] \<Rightarrow> [] | c # cs \<Rightarrow> if is_space c then [(c # b, cs, g)] else []))"
| "run WordB st =
     (case st of (b, r, g) \<Rightarrow> if word_before b \<noteq> word_before r then [st] else [])"
| "run Bol st = (case st of (b, r, g) \<Rightarrow> if b = [] then [st] else [])"
| "run Eol st = (case st of (b, r, g) \<Rightarrow> if r = [] \<or> r = [CHR 0x0A] then [st] else [])"
| "run (Seq p q) st = concat (map (run q) (run p st))"
| "run (Alt p q) st = run p st @ run q st"
| "run (Plus p) st = plus_iter (Suc (length (fst (snd st)))) (run p) st"
| "run (Opt p) st = run p st @ [st]"
| "run (Group n p) st =
     map (\<lambda>(b', r', g'). (b', r', (n, rev (take (length b' - length (fst st)) b')) # g'))
         (run p st)"

text \<open>A match object: where the match starts and ends, and its groups.\<close>

record rmatch =
  m_start :: nat
  m_end :: nat
  m_groups :: "(nat \<times> string) list"

text \<open>\<^verbatim>\<open>m.group(n)\<close>; \<open>None\<close> is Python's \<^verbatim>\<open>None\<close> for a group that took no part.\<close>

definition group :: "rmatch \<Rightarrow> nat \<Rightarrow> string option" where
  "group m n = map_of (m_groups m) n"

definition match_at :: "re \<Rightarrow> string \<Rightarrow> string \<Rightarrow> rmatch option" where
  "match_at p b r =
     (case run p (b, r, []) of
        [] \<Rightarrow> None
      | (b', r', g') # _ \<Rightarrow> Some \<lparr>m_start = length b, m_end = length b', m_groups = g'\<rparr>)"

fun search_from :: "re \<Rightarrow> string \<Rightarrow> string \<Rightarrow> rmatch option" where
  "search_from p b [] = match_at p b []"
| "search_from p b (c # cs) =
     (case match_at p b (c # cs) of
        Some m \<Rightarrow> Some m
      | None \<Rightarrow> search_from p (c # b) cs)"

text \<open>\<^verbatim>\<open>pattern.search(text)\<close>\<close>

definition search :: "re \<Rightarrow> string \<Rightarrow> rmatch option" where
  "search p text = search_from p [] text"

text \<open>
  \<^verbatim>\<open>re.sub(pattern, repl, text)\<close> for a literal replacement. The two patterns the program
  substitutes never match the empty string; an empty match is left alone here.
\<close>

fun sub_scan :: "re \<Rightarrow> string \<Rightarrow> nat \<Rightarrow> string \<Rightarrow> string \<Rightarrow> string" where
  "sub_scan p repl k b [] = []"
| "sub_scan p repl (Suc k) b (c # cs) = sub_scan p repl k (c # b) cs"
| "sub_scan p repl 0 b (c # cs) =
     (case match_at p b (c # cs) of
        None \<Rightarrow> c # sub_scan p repl 0 (c # b) cs
      | Some m \<Rightarrow>
          if m_end m = m_start m then c # sub_scan p repl 0 (c # b) cs
          else repl @ sub_scan p repl (m_end m - m_start m - 1) (c # b) cs)"

definition re_sub :: "re \<Rightarrow> string \<Rightarrow> string \<Rightarrow> string" where
  "re_sub p repl text = sub_scan p repl 0 [] text"

text \<open>An alternation of literal texts, \<^verbatim>\<open>(a|b|c)\<close> without the group.\<close>

fun alts :: "string list \<Rightarrow> re" where
  "alts [] = Str []"
| "alts [s] = Str s"
| "alts (s # ss) = Alt (Str s) (alts ss)"

text \<open>\<^verbatim>\<open>\b(a|b|c)\b\<close>\<close>

definition words_re :: "string list \<Rightarrow> re" where
  "words_re ws = Seq WordB (Seq (Group 1 (alts ws)) WordB)"

text \<open>\<^verbatim>\<open>^/cmd\s+(.+)$\<close>\<close>

definition cmd_arg_re :: "string \<Rightarrow> re" where
  "cmd_arg_re c = Seq Bol (Seq (Str c) (Seq (Plus Space) (Seq (Group 1 (Plus AnyCh)) Eol)))"

text \<open>\<^verbatim>\<open>^/cmd$\<close>\<close>

definition cmd_re :: "string \<Rightarrow> re" where
  "cmd_re c = Seq Bol (Seq (Str c) Eol)"

section \<open>Normalisation and intent detection\<close>

definition normalize_text :: "string \<Rightarrow> string" where
  "normalize_text text = re_sub (Plus Space) '' '' (lower (strip text))"

definition INTENT_PATTERNS :: "(string \<times> re) list" where
  "INTENT_PATTERNS =
    [(''greet'', words_re [''hi'', ''hello'', ''hey'', ''assalam'', ''salam'']),
     (''goodbye'', words_re [''bye'', ''goodbye'', ''see you'', ''tata'']),
     (''set_name'', Seq WordB (Seq (Str ''my name is '') (Group 1 (Plus AnyCh)))),
     (''ask_time'', words_re [''time'', ''clock'', ''what time'']),
     (''ask_date'', words_re [''date'', ''today'']),
     (''calculator'', Alt (Seq Bol (Str ''=''))
                         (words_re [''calc'', ''calculate'', ''evaluate''])),
     (''faq'', words_re [''sunk cost'', ''opportunity cost'', ''npv'', ''irr'', ''capm'',
                         ''beta'', ''perpetuity'', ''4p'', ''stp'', ''swot'', ''kpi'', ''lean'',
                         ''six sigma'']),
     (''load_csv'', cmd_arg_re ''/loadcsv''),
     (''setname_cmd'', cmd_arg_re ''/setname''),
     (''help'', cmd_re ''/help''),
     (''reset'', cmd_re ''/reset''),
     (''export'', cmd_re ''/export_history''),
     (''summary'', cmd_re ''/summary''),
     (''complaint'', words_re [''complain'', ''issue'', ''problem'', ''refund'', ''return'',
                               ''support''])]"

text \<open>The loop of \<^verbatim>\<open>detect_intent\<close>: the first pattern of the list that matches.\<close>

fun first_match :: "(string \<times> re) list \<Rightarrow> string \<Rightarrow> (string \<times> rmatch) option" where
  "first_match [] text = None"
| "first_match ((name, pattern) # ps) text =
     (case search pattern text of
        Some m \<Rightarrow> Some (name, m)
      | None \<Rightarrow> first_match ps text)"

definition detect_intent :: "string \<Rightarrow> string \<times> rmatch option" where
  "detect_intent text =
     (case first_match INTENT_PATTERNS text of
        Some (name, m) \<Rightarrow> (name, Some m)
      | None \<Rightarrow>
          if contains text ''help'' \<or> contains text ''commands'' then (''help'', None)
          else (''smalltalk'', None))"

text \<open>The intents whose pattern matches a text, in the order of the pattern list.\<close>

definition matching_intents :: "string \<Rightarrow> string list" where
  "matching_intents text =
     map fst (filter (\<lambda>(name, pattern). search pattern text \<noteq> None) INTENT_PATTERNS)"

section \<open>Exceptions, numbers and the environment\<close>

text \<open>An exception is a value: its class and its message (\<^verbatim>\<open>str(e)\<close>).\<close>

datatype exc =
    ValueError string
  | ZeroDivisionError string
  | SyntaxError string
  | OverflowError string
  | TypeError string
  | IndexError string
  | AttributeError string
  | OSError string

fun str_exc :: "exc \<Rightarrow> string" where
  "str_exc (ValueError m) = m"
| "str_exc (ZeroDivisionError m) = m"
| "str_exc (SyntaxError m) = m"
| "str_exc (OverflowError m) = m"
| "str_exc (TypeError m) = m"
| "str_exc (IndexError m) = m"
| "str_exc (AttributeError m) = m"
| "str_exc (OSError m) = m"

text \<open>
  Numbers of the calculator. Integers are Python's unbounded integers. A float or a complex
  number is kept as its \<^verbatim>\<open>repr\<close>, which determines it; arithmetic on them is IEEE arithmetic
  of the interpreter and comes from the environment.
\<close>

datatype val = VInt int | VBool bool | VFloat string | VComplex string

datatype operator =
    Add | Sub | Mult | Div | Mod | Pow
  | FloorDiv | MatMult | LShift | RShift | BitOr | BitXor | BitAnd

datatype unaryop = UAdd | USub | Invert | NotOp

datatype const =
    CInt int | CFloat string | CComplex string | CBool bool
  | CStr string | CBytes string | CNone | CEllipsis

text \<open>
  The expression nodes of Python's \<^verbatim>\<open>ast\<close>. \<open>Call\<close> has the callee, the positional
  arguments and the values of the keyword arguments. \<open>OtherNode kind children\<close> is an
  expression node of any other class (\<^verbatim>\<open>List\<close>, \<^verbatim>\<open>Compare\<close>, \<^verbatim>\<open>Attribute\<close>, \<^verbatim>\<open>Lambda\<close>, ...).
  A \<open>Name\<close> of an expression parsed in mode \<^verbatim>\<open>eval\<close> has the context \<^verbatim>\<open>Load\<close>.
\<close>

datatype expr =
    Constant const
  | BinOp expr operator expr
  | UnaryOp unaryop expr
  | Name string
  | Call expr "expr list" "expr list"
  | OtherNode string "expr list"

text \<open>A row of \<^verbatim>\<open>csv.DictReader\<close>: header to value, \<open>None\<close> for a field the row lacks.\<close>

type_synonym csv_row = "(string \<times> string option) list"

datatype csv_read = NotFound | ReadFails exc | Table "string list" "csv_row list"

text \<open>
  A write to a file succeeds, or fails before the file is touched, or fails part way and
  leaves a file that cannot be read back; a failure comes with the exception raised.
\<close>

datatype write_outcome = WriteOk | WriteRefused exc | WriteTorn exc

text \<open>
  What the program takes from outside: the clock, the random generator, the outcome of each
  write to a file, the interpreter's parser, the float arithmetic of the calculator and of
  the sentiment score, the CSV reader and the iteration order of a \<^verbatim>\<open>set\<close>. The clock, the generator and the file system are read at the
  event counter of the state (\<open>tick\<close>), which every such event advances.
\<close>

record env =
  clock :: "nat \<Rightarrow> string"
  today :: "nat \<Rightarrow> string"
  rand :: "nat \<Rightarrow> nat"
  write_outcome_at :: "nat \<Rightarrow> write_outcome"
  ast_parse :: "string \<Rightarrow> exc + expr"
  float_arith :: "operator \<Rightarrow> val \<Rightarrow> val \<Rightarrow> exc + val"
  int_truediv :: "int \<Rightarrow> int \<Rightarrow> exc + val"
  int_negpow :: "int \<Rightarrow> int \<Rightarrow> exc + val"
  float_neg :: "val \<Rightarrow> val"
  float_less :: "val \<Rightarrow> val \<Rightarrow> bool"
  read_csv :: "string \<Rightarrow> csv_read"
  set_order :: "string list \<Rightarrow> string list"

section \<open>Decimal numerals\<close>

definition digit_char :: "nat \<Rightarrow> char" where
  "digit_char d = ''0123456789'' ! d"

fun str_nat :: "nat \<Rightarrow> string" where
  "str_nat n = (if n < 10 then [digit_char n] else str_nat (n div 10) @ [digit_char (n mod 10)])"

declare str_nat.simps [simp del]

definition str_int :: "int \<Rightarrow> string" where
  "str_int i = (if i < 0 then CHR ''-'' # str_nat (nat (- i)) else str_nat (nat i))"

section \<open>The safe calculator\<close>

definition ALLOWED_operator :: "operator \<Rightarrow> bool" where
  "ALLOWED_operator op = (op \<in> {Add, Sub, Mult, Div, Mod, Pow})"

definition ALLOWED_unaryop :: "unaryop \<Rightarrow> bool" where
  "ALLOWED_unaryop op = (op \<in> {USub, UAdd})"

definition ALLOWED_NAMES :: "(string \<times> val) list" where
  "ALLOWED_NAMES = [(''pi'', VFloat ''3.141592653589793''), (''e'', VFloat ''2.718281828459045'')]"

text \<open>
  \<^verbatim>\<open>SafeEvaluator.visit\<close>: the check against \<^verbatim>\<open>ALLOWED_NODES\<close>, then \<^verbatim>\<open>NodeVisitor.visit\<close>,
  which visits the child nodes in field order through \<^verbatim>\<open>visit\<close> again. The allowed
  expression classes are \<^verbatim>\<open>BinOp\<close>, \<^verbatim>\<open>UnaryOp\<close>, \<^verbatim>\<open>Constant\<close>, \<^verbatim>\<open>Call\<close> and \<^verbatim>\<open>Name\<close>; a keyword
  argument is a node of class \<^verbatim>\<open>keyword\<close>, which is not allowed.
\<close>

fun visit :: "expr \<Rightarrow> exc + unit" and visit_all :: "expr list \<Rightarrow> exc + unit" where
  "visit (Constant c) = Inr ()"
| "visit (BinOp l op r) =
     (case visit l of
        Inl e \<Rightarrow> Inl e
      | Inr _ \<Rightarrow>
          if \<not> ALLOWED_operator op then Inl (ValueError ''Disallowed expression'')
          else visit r)"
| "visit (UnaryOp op x) =
     (if \<not> ALLOWED_unaryop op then Inl (ValueError ''Disallowed expression'') else visit x)"
| "visit (Name n) = Inr ()"
| "visit (Call f args kws) =
     (case visit f of
        Inl e \<Rightarrow> Inl e
      | Inr _ \<Rightarrow>
          (case visit_all args of
             Inl e \<Rightarrow> Inl e
           | Inr _ \<Rightarrow> if kws = [] then Inr () else Inl (ValueError ''Disallowed expression'')))"
| "visit (OtherNode k cs) = Inl (ValueError ''Disallowed expression'')"
| "visit_all [] = Inr ()"
| "visit_all (x # xs) = (case visit x of Inl e \<Rightarrow> Inl e | Inr _ \<Rightarrow> visit_all xs)"

text \<open>Integers and booleans take part in arithmetic as integers.\<close>

fun as_int :: "val \<Rightarrow> int option" where
  "as_int (VInt i) = Some i"
| "as_int (VBool b) = Some (if b then 1 else 0)"
| "as_int (VFloat f) = None"
| "as_int (VComplex z) = None"

text \<open>
  The six binary operations of \<^verbatim>\<open>_eval\<close> on integers, with the messages of CPython 3.11.
  Python's \<^verbatim>\<open>%\<close> takes the sign of the divisor, as \<open>mod\<close> on \<^typ>\<open>int\<close> does.
\<close>

definition int_binop :: "env \<Rightarrow> operator \<Rightarrow> int \<Rightarrow> int \<Rightarrow> exc + val" where
  "int_binop E op a b =
     (if op = Add then Inr (VInt (a + b))
      else if op = Sub then Inr (VInt (a - b))
      else if op = Mult then Inr (VInt (a * b))
      else if op = Div then
        (if b = 0 then Inl (ZeroDivisionError ''division by zero'') else int_truediv E a b)
      else if op = Mod then
        (if b = 0 then Inl (ZeroDivisionError ''integer modulo by zero'')
         else Inr (VInt (a mod b)))
      else if 0 \<le> b then Inr (VInt (a ^ nat b))
      else if a = 0 then Inl (ZeroDivisionError ''0.0 cannot be raised to a negative power'')
      else int_negpow E a b)"

definition binop :: "env \<Rightarrow> operator \<Rightarrow> val \<Rightarrow> val \<Rightarrow> exc + val" where
  "binop E op l r =
     (case (as_int l, as_int r) of
        (Some a, Some b) \<Rightarrow> int_binop E op a b
      | _ \<Rightarrow> float_arith E op l r)"

definition unop :: "env \<Rightarrow> unaryop \<Rightarrow> val \<Rightarrow> val" where
  "unop E op v =
     (case as_int v of
        Some a \<Rightarrow> VInt (if op = USub then - a else a)
      | None \<Rightarrow> if op = USub then float_neg E v else v)"

text \<open>
  An arithmetic operation that the evaluator carried out. \<^verbatim>\<open>_eval\<close> is modelled with the
  list of these operations in the order it performs them, next to its result.
\<close>

datatype event = BinEv operator val val | UnEv unaryop val

text \<open>
  \<^verbatim>\<open>SafeEvaluator._eval\<close>. A numeric constant (\<^verbatim>\<open>ast.Num\<close>: int, float, complex; or a
  \<^verbatim>\<open>Constant\<close> whose value is an int or a float, which includes booleans) is its value.
  A \<^verbatim>\<open>BinOp\<close> evaluates the left and the right operand and then looks at the operator; with an
  operator other than the six, and for every node that no case returns from, control reaches
  the last line, \<^verbatim>\<open>raise ValueError("Unsupported expression")\<close>.
\<close>

fun eval_node :: "env \<Rightarrow> expr \<Rightarrow> event list \<times> (exc + val)" where
  "eval_node E (Constant c) =
     (case c of
        CInt i \<Rightarrow> ([], Inr (VInt i))
      | CFloat f \<Rightarrow> ([], Inr (VFloat f))
      | CComplex z \<Rightarrow> ([], Inr (VComplex z))
      | CBool b \<Rightarrow> ([], Inr (VBool b))
      | _ \<Rightarrow> ([], Inl (ValueError ''Unsupported expression'')))"
| "eval_node E (BinOp l op r) =
     (case eval_node E l of
        (t1, Inl e) \<Rightarrow> (t1, Inl e)
      | (t1, Inr left) \<Rightarrow>
          (case eval_node E r of
             (t2, Inl e) \<Rightarrow> (t1 @ t2, Inl e)
           | (t2, Inr right) \<Rightarrow>
               if op \<in> {Add, Sub, Mult, Div, Mod, Pow}
               then (t1 @ t2 @ [BinEv op left right], binop E op left right)
               else (t1 @ t2, Inl (ValueError ''Unsupported expression''))))"
| "eval_node E (UnaryOp op x) =
     (case eval_node E x of
        (t, Inl e) \<Rightarrow> (t, Inl e)
      | (t, Inr v) \<Rightarrow>
          if op \<in> {UAdd, USub} then (t @ [UnEv op v], Inr (unop E op v))
          else (t, Inl (ValueError ''Unsupported expression'')))"
| "eval_node E (Name n) =
     (case map_of ALLOWED_NAMES n of
        Some v \<Rightarrow> ([], Inr v)
      | None \<Rightarrow> ([], Inl (ValueError (''Unknown name: '' @ n))))"
| "eval_node E (Call f args kws) = ([], Inl (ValueError ''Unsupported expression''))"
| "eval_node E (OtherNode k cs) = ([], Inl (ValueError ''Unsupported expression''))"

text \<open>\<^verbatim>\<open>SafeEvaluator.eval\<close>: parse, then \<^verbatim>\<open>_eval\<close> on the body. \<^verbatim>\<open>visit\<close> is not called.\<close>

definition eval_expr :: "env \<Rightarrow> string \<Rightarrow> event list \<times> (exc + val)" where
  "eval_expr E src =
     (case ast_parse E src of
        Inl e \<Rightarrow> ([], Inl e)
      | Inr tree \<Rightarrow> eval_node E tree)"

text \<open>
  \<^verbatim>\<open>str\<close> of a number, as the f-string of the reply takes it. CPython from 3.11 on refuses to
  print an integer of more than 4300 digits.
\<close>

definition str_val :: "val \<Rightarrow> exc + string" where
  "str_val v =
     (case v of
        VInt i \<Rightarrow>
          if 4300 < length (str_nat (nat \<bar>i\<bar>))
          then Inl (ValueError ''Exceeds the limit (4300 digits) for integer string conversion; use sys.set_int_max_str_digits() to increase the limit'')
          else Inr (str_int i)
      | VBool b \<Rightarrow> Inr (if b then ''True'' else ''False'')
      | VFloat f \<Rightarrow> Inr f
      | VComplex z \<Rightarrow> Inr z)"

section \<open>More text utilities\<close>

text \<open>The maximal runs of characters that satisfy \<open>P\<close>, in order.\<close>

fun runs_acc :: "(char \<Rightarrow> bool) \<Rightarrow> string \<Rightarrow> string \<Rightarrow> string list" where
  "runs_acc P cur [] = (if cur = [] then [] else [rev cur])"
| "runs_acc P cur (c # cs) =
     (if P c then runs_acc P (c # cur) cs
      else if cur = [] then runs_acc P [] cs
      else rev cur # runs_acc P [] cs)"

text \<open>\<^verbatim>\<open>s.split()\<close>\<close>

definition split :: "string \<Rightarrow> string list" where
  "split s = runs_acc (\<lambda>c. \<not> is_space c) [] s"

text \<open>\<^verbatim>\<open>s.strip('"')\<close>\<close>

definition strip_quotes :: "string \<Rightarrow> string" where
  "strip_quotes s =
     rev (dropWhile (\<lambda>c. c = CHR 0x22) (rev (dropWhile (\<lambda>c. c = CHR 0x22) s)))"

text \<open>\<^verbatim>\<open>s.title()\<close>: a letter after a letter is lowered, any other letter is raised.\<close>

fun title_from :: "bool \<Rightarrow> string \<Rightarrow> string" where
  "title_from p [] = []"
| "title_from p (c # cs) =
     (if is_upper c \<or> is_lower c
      then (if p then lower_char c else upper_char c) # title_from True cs
      else c # title_from False cs)"

definition title :: "string \<Rightarrow> string" where
  "title s = title_from False s"

text \<open>\<^verbatim>\<open>sep.join(xs)\<close>\<close>

fun join :: "string \<Rightarrow> string list \<Rightarrow> string" where
  "join sep [] = []"
| "join sep [x] = x"
| "join sep (x # xs) = x @ sep @ join sep xs"

text \<open>
  Some literals of the source hold characters beyond ASCII; they stand here as the bytes of
  their UTF-8 encoding: U+00E2 U+20AC U+201D, U+00C3 U+2014, and U+00F0 U+0178 U+02DC U+0160.
\<close>

definition dash :: string where
  "dash = [CHR 0xC3, CHR 0xA2, CHR 0xE2, CHR 0x82, CHR 0xAC, CHR 0xE2, CHR 0x80, CHR 0x9D]"

definition times_sign :: string where
  "times_sign = [CHR 0xC3, CHR 0x83, CHR 0xE2, CHR 0x80, CHR 0x94]"

definition smile :: string where
  "smile = [CHR 0xC3, CHR 0xB0, CHR 0xC5, CHR 0xB8, CHR 0xCB, CHR 0x9C, CHR 0xC5, CHR 0xA0]"

section \<open>Sentiment\<close>

definition POS_WORDS :: "string list" where
  "POS_WORDS =
    [''good'', ''great'', ''excellent'', ''awesome'', ''amazing'', ''love'', ''like'', ''happy'',
     ''satisfied'', ''helpful'', ''fast'', ''fantastic'', ''superb'', ''brilliant'', ''wonderful'',
     ''recommend'', ''positive'', ''smooth'', ''convenient'', ''affordable'', ''reasonable'',
     ''polite'', ''friendly'', ''quick'', ''impressive'', ''neat'', ''clean'', ''reliable'']"

definition NEG_WORDS :: "string list" where
  "NEG_WORDS =
    [''bad'', ''poor'', ''terrible'', ''awful'', ''hate'', ''dislike'', ''unhappy'', ''unsatisfied'',
     ''slow'', ''rude'', ''broken'', ''worst'', ''late'', ''expensive'', ''dirty'', ''confusing'',
     ''frustrating'', ''unhelpful'', ''problem'', ''issue'', ''negative'', ''buggy'', ''crash'',
     ''delay'']"

fun score_tokens :: "string list \<Rightarrow> int" where
  "score_tokens [] = 0"
| "score_tokens (t # ts) =
     (if t \<in> set POS_WORDS then 1 else if t \<in> set NEG_WORDS then - 1 else 0) + score_tokens ts"

definition sentiment_score :: "env \<Rightarrow> string \<Rightarrow> exc + val" where
  "sentiment_score E text =
     (let tokens = runs_acc (\<lambda>c. is_upper c \<or> is_lower c \<or> c = CHR 0x27) [] (lower text)
      in if tokens = [] then Inr (VFloat ''0.0'')
         else int_truediv E (score_tokens tokens) (max 1 (int (length tokens))))"

section \<open>Knowledge base\<close>

definition FAQ :: "(string \<times> string) list" where
  "FAQ =
    [(''sunk cost'', ''Sunk cost is money already spent and unrecoverable; ignore it when making future decisions.''),
     (''opportunity cost'', ''Opportunity cost is the value of the next best alternative you give up when making a choice.''),
     (''npv'', ''NPV (Net Present Value) = sum of discounted cash flows minus initial investment; choose projects with positive NPV.''),
     (''irr'', ''IRR is the discount rate that makes NPV = 0; select projects with IRR above the required return.''),
     (''capm'', ''CAPM: Expected Return = Rf + Beta * (Rm - Rf).''),
     (''beta'', ''Beta measures a stock's sensitivity to market movements (beta > 1 more volatile than market).''),
     (''perpetuity'', ''Perpetuity PV = C / r (first payment one period from now).''),
     (''4p'', ''Marketing Mix 4P: Product, Price, Place, Promotion.''),
     (''stp'', ''STP: Segmentation, Targeting, Positioning.''),
     (''swot'', ''SWOT: Strengths, Weaknesses, Opportunities, Threats.''),
     (''kpi'', ''KPI: Key Performance Indicator'' @ dash @ ''quantifiable measure of performance over time.''),
     (''lean'', ''Lean aims to eliminate waste (muda) and maximize customer value.''),
     (''six sigma'', ''Six Sigma reduces process variation; DMAIC: Define, Measure, Analyze, Improve, Control.'')]"

definition SMALLTALK :: "string list" where
  "SMALLTALK =
    [''Totally noted.'',
     ''Got it!'',
     ''Interesting'' @ dash @ ''tell me more.'',
     ''Thanks for sharing!'',
     ''I'm here to help'' @ dash @ ''what's next?'']"

definition GREETINGS :: "string list" where
  "GREETINGS =
    [''Hello! I'm your study buddy bot. What's your name?'',
     ''Hi there! Great to see you. How can I help today?'',
     ''Hey! Ready to learn something new?'']"

definition GOODBYES :: "string list" where
  "GOODBYES =
    [''Bye! Keep learning and stay awesome!'',
     ''See you later'' @ dash @ ''good luck with your studies!'',
     ''Goodbye! Ping me anytime.'']"

section \<open>Memory\<close>

record entry =
  e_time :: string
  e_role :: string
  e_text :: string

text \<open>
  \<^verbatim>\<open>Memory.data\<close>. The model keeps it in the shape the program builds: a name or
  \<^verbatim>\<open>None\<close>, the preferences, the list of entries.
\<close>

record memdata =
  user_name :: "string option"
  preferences :: "(string \<times> string) list"
  history :: "entry list"

text \<open>
  The file \<^verbatim>\<open>bot_memory.json\<close>: absent, present but not readable as JSON, or holding a
  document. \<^verbatim>\<open>json.dump\<close> writes the whole of \<^verbatim>\<open>data\<close> and \<^verbatim>\<open>json.load\<close> gives back the
  document it reads; the model stores the document itself and leaves out its text.
\<close>

datatype file_state = Absent | Unreadable | Stored memdata

record task =
  ttype :: string
  product :: "string option"
  issue :: "string option"
  order_id :: "string option"

text \<open>
  The state of the program: the fields of \<^verbatim>\<open>Chatbot\<close> and of its \<^verbatim>\<open>Memory\<close>, the two files
  it writes, and the counter of the events taken from the environment.
\<close>

record chatbot =
  data :: memdata
  memory_file :: file_state
  pending_task :: "task option"
  loaded_csv :: "string option"
  csv_headers :: "string list"
  csv_rows :: "csv_row list"
  history_file :: "string option"
  tick :: nat

definition now_str :: "env \<Rightarrow> chatbot \<Rightarrow> string \<times> chatbot" where
  "now_str E s = (clock E (tick s), s\<lparr>tick := Suc (tick s)\<rparr>)"

text \<open>\<^verbatim>\<open>Memory.load\<close>: a missing file and a failed read both leave \<^verbatim>\<open>data\<close> as it is.\<close>

definition load :: "chatbot \<Rightarrow> chatbot" where
  "load s = (case memory_file s of Stored d \<Rightarrow> s\<lparr>data := d\<rparr> | _ \<Rightarrow> s)"

text \<open>\<^verbatim>\<open>Memory.save\<close>: the exception of a failed write is swallowed.\<close>

definition save :: "env \<Rightarrow> chatbot \<Rightarrow> chatbot" where
  "save E s =
     (case write_outcome_at E (tick s) of
        WriteOk \<Rightarrow> s\<lparr>memory_file := Stored (data s), tick := Suc (tick s)\<rparr>
      | WriteRefused e \<Rightarrow> s\<lparr>tick := Suc (tick s)\<rparr>
      | WriteTorn e \<Rightarrow> s\<lparr>memory_file := Unreadable, tick := Suc (tick s)\<rparr>)"

definition add_history :: "env \<Rightarrow> string \<Rightarrow> string \<Rightarrow> chatbot \<Rightarrow> chatbot" where
  "add_history E role text s =
     (case now_str E s of (t, s1) \<Rightarrow>
        let h = history (data s1) @ [\<lparr>e_time = t, e_role = role, e_text = text\<rparr>];
            h' = (if 400 < length h then drop (length h - 400) h else h)
        in save E (s1\<lparr>data := (data s1)\<lparr>history := h'\<rparr>\<rparr>))"

definition default_data :: memdata where
  "default_data = \<lparr>user_name = None, preferences = [], history = []\<rparr>"

text \<open>\<^verbatim>\<open>Chatbot.__init__\<close>, with \<^verbatim>\<open>Memory.__init__\<close>, started on a given memory file.\<close>

definition Chatbot_init :: "file_state \<Rightarrow> chatbot" where
  "Chatbot_init f =
     load \<lparr>data = default_data, memory_file = f, pending_task = None, loaded_csv = None,
           csv_headers = [], csv_rows = [], history_file = None, tick = 0\<rparr>"

section \<open>Floating-point cells and statistics\<close>

text \<open>
  Modelled from the spec: the floats of the CSV insights, which Python's \<^verbatim>\<open>float\<close>,
  \<^verbatim>\<open>statistics\<close> and \<^verbatim>\<open>format\<close> provide, are modelled over the reals. A finite float stands
  for the real number that its text denotes, and the arithmetic of the statistics and of the
  format is exact: the rounding of doubles to 53 bits is left out. Kept are the values that
  are not finite (infinities and not-a-number, also from a literal or a sum beyond the range
  of doubles), since the program's behaviour differs on them.
\<close>

datatype fval = Finite real | PInf | NInf | NaN

fun is_Finite :: "fval \<Rightarrow> bool" where
  "is_Finite (Finite x) = True"
| "is_Finite PInf = False"
| "is_Finite NInf = False"
| "is_Finite NaN = False"

fun real_of :: "fval \<Rightarrow> real" where
  "real_of (Finite x) = x"
| "real_of PInf = 0"
| "real_of NInf = 0"
| "real_of NaN = 0"

text \<open>
  From this bound on, a real number rounds to an infinite double: the bound is
  \<open>2 ^ 1024 - 2 ^ 970\<close>, half way between the largest double and \<open>2 ^ 1024\<close>.
\<close>

definition dbl_overflow :: real where
  "dbl_overflow =
     179769313486231580793728971405303415079934132710037826936173778980444968292764750946649017977587207096330286416692887910946555547851940402630657488671505820681908902000708383676273854845817711531764475730270069855571366959622842914819860834936475292719074168444365510704342711559699508093042880177904174497792"

definition to_fval :: "real \<Rightarrow> fval" where
  "to_fval x = (if dbl_overflow \<le> x then PInf else if x \<le> - dbl_overflow then NInf else Finite x)"

definition digit_of :: "char \<Rightarrow> int" where
  "digit_of c = of_char c - 48"

fun digits_value :: "int \<Rightarrow> string \<Rightarrow> int" where
  "digits_value acc [] = acc"
| "digits_value acc (c # cs) = digits_value (10 * acc + digit_of c) cs"

text \<open>
  Digits with single underscores between them, as Python's numeric literals allow; the
  flag says whether the character before was a digit.
\<close>

fun digitpart_from :: "bool \<Rightarrow> string \<Rightarrow> bool" where
  "digitpart_from p [] = p"
| "digitpart_from p (c # cs) =
     (if is_digit c then digitpart_from True cs
      else if c = CHR ''_'' \<and> p then digitpart_from False cs
      else False)"

definition is_digitpart :: "string \<Rightarrow> bool" where
  "is_digitpart s = digitpart_from False s"

definition split_sign :: "string \<Rightarrow> bool \<times> string" where
  "split_sign s =
     (case s of
        [] \<Rightarrow> (False, [])
      | c # cs \<Rightarrow> if c = CHR ''-'' then (True, cs) else if c = CHR ''+'' then (False, cs)
                 else (False, s))"

text \<open>
  The white space that \<^verbatim>\<open>float\<close> drops around an ASCII text is that of C: tab to
  carriage return, and the space.
\<close>

definition is_cspace :: "char \<Rightarrow> bool" where
  "is_cspace c = (let n = (of_char c :: int) in (9 \<le> n \<and> n \<le> 13) \<or> n = 32)"

definition strip_c :: "string \<Rightarrow> string" where
  "strip_c s = rev (dropWhile is_cspace (rev (dropWhile is_cspace s)))"

text \<open>
  \<^verbatim>\<open>float(s)\<close> on a string: white space around is dropped; then a sign and \<^verbatim>\<open>inf\<close>,
  \<^verbatim>\<open>infinity\<close> or \<^verbatim>\<open>nan\<close> in any case, or a decimal numeral with an optional fraction and
  an optional exponent. \<open>None\<close> is the \<^verbatim>\<open>ValueError\<close> of a text that is none of these.
\<close>

definition float_of_str :: "string \<Rightarrow> fval option" where
  "float_of_str s =
     (case split_sign (strip_c s) of (neg, u) \<Rightarrow>
        if lower u = ''inf'' \<or> lower u = ''infinity'' then Some (if neg then NInf else PInf)
        else if lower u = ''nan'' then Some NaN
        else
          let not_e = (\<lambda>c. c \<noteq> CHR ''e'' \<and> c \<noteq> CHR ''E'');
              m = takeWhile not_e u;
              ex = dropWhile not_e u;
              ip = takeWhile (\<lambda>c. c \<noteq> CHR ''.'') m;
              fr = drop 1 (dropWhile (\<lambda>c. c \<noteq> CHR ''.'') m);
              dotted = (dropWhile (\<lambda>c. c \<noteq> CHR ''.'') m \<noteq> []);
              mantissa_ok =
                (if dotted
                 then (is_digitpart ip \<and> (fr = [] \<or> is_digitpart fr))
                      \<or> (ip = [] \<and> is_digitpart fr)
                 else is_digitpart ip);
              exponent_ok = (ex = [] \<or> is_digitpart (snd (split_sign (drop 1 ex))));
              e = (if ex = [] then 0
                   else (if fst (split_sign (drop 1 ex)) then - 1 else 1) *
                        digits_value 0 (filter is_digit (snd (split_sign (drop 1 ex)))));
              scale = e - int (length (filter is_digit fr));
              mant = real_of_int (digits_value 0 (filter is_digit (ip @ fr)));
              x = (if 0 \<le> scale then mant * 10 ^ nat scale else mant / 10 ^ nat (- scale))
          in if mantissa_ok \<and> exponent_ok then Some (to_fval (if neg then - x else x))
             else None)"

text \<open>
  \<^verbatim>\<open>statistics.mean\<close>, \<^verbatim>\<open>statistics.median\<close> and \<^verbatim>\<open>statistics.pstdev\<close> on finite values, for
  a list that is not empty. The median of an even number of values is the sum of the two
  middle ones divided by two; the sum can leave the range of doubles. The population standard
  deviation divides the sum of the squared deviations by the number of values.
\<close>

definition stats_mean :: "real list \<Rightarrow> real" where
  "stats_mean xs = sum_list xs / real (length xs)"

definition stats_median :: "real list \<Rightarrow> fval" where
  "stats_median xs =
     (let s = sort xs; n = length s
      in if odd n then Finite (s ! (n div 2))
         else (case to_fval (s ! (n div 2 - 1) + s ! (n div 2)) of
                 Finite t \<Rightarrow> Finite (t / 2)
               | v \<Rightarrow> v))"

definition stats_pstdev :: "real list \<Rightarrow> real" where
  "stats_pstdev xs =
     sqrt (sum_list (map (\<lambda>x. (x - stats_mean xs)\<^sup>2) xs) / real (length xs))"

text \<open>Rounding to the nearest integer, a tie going to the even one.\<close>

definition round_half_even :: "real \<Rightarrow> int" where
  "round_half_even x =
     (let f = \<lfloor>x\<rfloor>; d = x - of_int f
      in if d < 1 / 2 then f else if 1 / 2 < d then f + 1 else if even f then f else f + 1)"

text \<open>The format \<^verbatim>\<open>.3f\<close>: the value rounded to three decimal places.\<close>

definition fmt3 :: "fval \<Rightarrow> string" where
  "fmt3 v =
     (case v of
        Finite x \<Rightarrow>
          (let k = nat (round_half_even (\<bar>x\<bar> * 1000))
           in (if x < 0 then ''-'' else []) @ str_nat (k div 1000) @ ''.'' @
              [digit_char (k div 100 mod 10), digit_char (k div 10 mod 10), digit_char (k mod 10)])
      | PInf \<Rightarrow> ''inf''
      | NInf \<Rightarrow> ''-inf''
      | NaN \<Rightarrow> ''nan'')"

section \<open>The chatbot\<close>

type_synonym outcome = "exc + (string \<times> chatbot)"

definition reply :: "env \<Rightarrow> string \<Rightarrow> chatbot \<Rightarrow> string \<times> chatbot" where
  "reply E text s = (text, add_history E ''assistant'' text s)"

text \<open>\<^verbatim>\<open>random.choice\<close> on a list that is not empty.\<close>

definition choice :: "env \<Rightarrow> string list \<Rightarrow> chatbot \<Rightarrow> string \<times> chatbot" where
  "choice E xs s = (xs ! (rand E (tick s) mod length xs), s\<lparr>tick := Suc (tick s)\<rparr>)"

text \<open>\<^verbatim>\<open>random.randint(a, b)\<close>: a number from \<open>a\<close> to \<open>b\<close>, both included.\<close>

definition randint :: "env \<Rightarrow> nat \<Rightarrow> nat \<Rightarrow> chatbot \<Rightarrow> nat \<times> chatbot" where
  "randint E a b s = (a + rand E (tick s) mod (b - a + 1), s\<lparr>tick := Suc (tick s)\<rparr>)"

definition handle_greet :: "env \<Rightarrow> chatbot \<Rightarrow> string \<times> chatbot" where
  "handle_greet E s =
     (case user_name (data s) of
        Some name \<Rightarrow>
          if name \<noteq> [] then reply E (''Hello '' @ name @ ''! How can I help today?'') s
          else (case choice E GREETINGS s of (g, s1) \<Rightarrow> reply E g s1)
      | None \<Rightarrow> (case choice E GREETINGS s of (g, s1) \<Rightarrow> reply E g s1))"

definition handle_goodbye :: "env \<Rightarrow> chatbot \<Rightarrow> string \<times> chatbot" where
  "handle_goodbye E s = (case choice E GOODBYES s of (g, s1) \<Rightarrow> reply E g s1)"

definition set_user_name :: "string \<Rightarrow> chatbot \<Rightarrow> chatbot" where
  "set_user_name n s = s\<lparr>data := (data s)\<lparr>user_name := Some n\<rparr>\<rparr>"

text \<open>What \<^verbatim>\<open>m.group(1).strip()\<close> raises when the group is \<^verbatim>\<open>None\<close>.\<close>

definition no_strip :: exc where
  "no_strip = AttributeError ([CHR 0x27] @ ''NoneType'' @ [CHR 0x27] @
     '' object has no attribute '' @ [CHR 0x27] @ ''strip'' @ [CHR 0x27])"

definition handle_set_name :: "env \<Rightarrow> rmatch \<Rightarrow> chatbot \<Rightarrow> outcome" where
  "handle_set_name E m s =
     (case group m 1 of
        None \<Rightarrow> Inl no_strip
      | Some g \<Rightarrow>
          (case split (strip g) of
             [] \<Rightarrow> Inl (IndexError ''list index out of range'')
           | name # _ \<Rightarrow>
               let s1 = save E (set_user_name (title name) s)
               in Inr (reply E (''Nice to meet you, '' @ title name @ ''! I'll remember your name.'') s1)))"

definition handle_setname_cmd :: "env \<Rightarrow> rmatch \<Rightarrow> chatbot \<Rightarrow> outcome" where
  "handle_setname_cmd E m s =
     (case group m 1 of
        None \<Rightarrow> Inl no_strip
      | Some g \<Rightarrow>
          let name = strip g;
              s1 = save E (set_user_name (title name) s)
          in Inr (reply E (''Got it! I'll call you '' @ title name @ ''.'') s1))"

definition handle_time :: "env \<Rightarrow> chatbot \<Rightarrow> string \<times> chatbot" where
  "handle_time E s = (case now_str E s of (t, s1) \<Rightarrow> reply E (''Current time: '' @ t) s1)"

definition handle_date :: "env \<Rightarrow> chatbot \<Rightarrow> string \<times> chatbot" where
  "handle_date E s =
     reply E (''Today is '' @ today E (tick s) @ ''.'') (s\<lparr>tick := Suc (tick s)\<rparr>)"

definition help_text :: string where
  "help_text =
     ''Commands:'' @ [CHR 0x0A] @
     ''  /help                Show this help'' @ [CHR 0x0A] @
     ''  /setname Name        Save your name'' @ [CHR 0x0A] @
     ''  /loadcsv path.csv    Load a CSV and get insights'' @ [CHR 0x0A] @
     ''  /summary             Summarize our recent chat'' @ [CHR 0x0A] @
     ''  /export_history      Save conversation to chat_history.txt'' @ [CHR 0x0A] @
     ''  /reset               Clear memory (name & history)'' @ [CHR 0x0A, CHR 0x0A] @
     ''Other features:'' @ [CHR 0x0A] @
     ''- Type 'sunk cost', 'NPV', 'CAPM', etc. for quick BBA FAQs'' @ [CHR 0x0A] @
     ''- Start a complaint (say 'I have a problem...') to open a support ticket'' @ [CHR 0x0A] @
     ''- Calculator: start with '=' or type 'calculate 2*(10+5)'' @ [CHR 0x27, CHR 0x0A] @
     ''- Ask date/time, casual chat, and more!''"

definition handle_help :: "env \<Rightarrow> chatbot \<Rightarrow> string \<times> chatbot" where
  "handle_help E s = reply E help_text s"

definition export_line :: "entry \<Rightarrow> string" where
  "export_line item =
     ''['' @ e_time item @ ''] '' @ upper (e_role item) @ '': '' @ e_text item @ [CHR 0x0A]"

text \<open>\<^verbatim>\<open>handle_export\<close> does not catch the exception of a failed write.\<close>

definition handle_export :: "env \<Rightarrow> chatbot \<Rightarrow> outcome" where
  "handle_export E s =
     (case write_outcome_at E (tick s) of
        WriteOk \<Rightarrow>
          Inr (reply E ''History exported to chat_history.txt (in the current folder).''
                 (s\<lparr>history_file := Some (concat (map export_line (history (data s)))),
                    tick := Suc (tick s)\<rparr>))
      | WriteRefused e \<Rightarrow> Inl e
      | WriteTorn e \<Rightarrow> Inl e)"

text \<open>\<^verbatim>\<open>xs[-n:]\<close> for a positive \<open>n\<close>\<close>

definition last_n :: "nat \<Rightarrow> 'a list \<Rightarrow> 'a list" where
  "last_n n xs = drop (length xs - n) xs"

definition handle_summary :: "env \<Rightarrow> chatbot \<Rightarrow> string \<times> chatbot" where
  "handle_summary E s =
     (let hist = last_n 20 (history (data s));
          user_msgs = map e_text (filter (\<lambda>h. e_role h = ''user'') hist);
          intents = map (\<lambda>u. fst (detect_intent (normalize_text u))) user_msgs;
          intent_counts = map (\<lambda>i. (i, count_list intents i)) (set_order E intents);
          joined = join '', '' (map (\<lambda>(k, v). k @ times_sign @ str_nat v) intent_counts);
          bullets = (if joined = [] then ''varied topics'' else joined)
      in reply E (''Recent summary: we discussed '' @ bullets @
                  ''. I also saved your name if you set it.'') s)"

definition handle_reset :: "env \<Rightarrow> chatbot \<Rightarrow> string \<times> chatbot" where
  "handle_reset E s =
     reply E ''Memory cleared. Fresh start!'' (save E (s\<lparr>data := default_data\<rparr>))"

text \<open>The pattern of \<^verbatim>\<open>handle_calculator\<close>: \<^verbatim>\<open>^(calc(ulate)?|evaluate)\s+\<close>\<close>

definition calc_prefix_re :: re where
  "calc_prefix_re =
     Seq Bol (Seq (Group 1 (Alt (Seq (Str ''calc'') (Opt (Group 2 (Str ''ulate''))))
                                 (Str ''evaluate'')))
                  (Plus Space))"

definition failure_text :: "exc \<Rightarrow> string" where
  "failure_text e = ''Sorry, I couldn't evaluate that. ('' @ str_exc e @ '')''"

definition handle_calculator :: "env \<Rightarrow> string \<Rightarrow> chatbot \<Rightarrow> string \<times> chatbot" where
  "handle_calculator E text s =
     (let expr0 = (if startswith (strip text) ''='' then drop 1 (strip text) else text);
          expr = re_sub calc_prefix_re [] expr0
      in case snd (eval_expr E expr) of
           Inl e \<Rightarrow> reply E (failure_text e) s
         | Inr v \<Rightarrow>
             (case str_val v of
                Inl e \<Rightarrow> reply E (failure_text e) s
              | Inr shown \<Rightarrow> reply E (''Result: '' @ shown) s))"

fun faq_lookup :: "(string \<times> string) list \<Rightarrow> string \<Rightarrow> string option" where
  "faq_lookup [] text = None"
| "faq_lookup ((k, v) # kvs) text =
     (if contains text k then Some (title k @ '': '' @ v) else faq_lookup kvs text)"

definition handle_faq :: "env \<Rightarrow> string \<Rightarrow> chatbot \<Rightarrow> string \<times> chatbot" where
  "handle_faq E text s =
     (case faq_lookup FAQ text of
        Some r \<Rightarrow> reply E r s
      | None \<Rightarrow> reply E ''I didn't find that topic. Try /help for supported FAQs.'' s)"

text \<open>\<^verbatim>\<open>r.get(h)\<close> on a row\<close>

definition row_get :: "csv_row \<Rightarrow> string \<Rightarrow> string option" where
  "row_get r h = (case map_of r h of Some (Some v) \<Rightarrow> Some v | _ \<Rightarrow> None)"

text \<open>
  A header is numeric when \<^verbatim>\<open>float\<close> accepts its first value that is neither missing nor
  empty; with no such value the default \<^verbatim>\<open>'nan'\<close> is taken, which \<^verbatim>\<open>float\<close> accepts.
\<close>

definition numeric_header :: "csv_row list \<Rightarrow> string \<Rightarrow> bool" where
  "numeric_header rows h =
     (case filter (\<lambda>v. v \<noteq> None \<and> v \<noteq> Some []) (map (\<lambda>r. row_get r h) rows) of
        Some v # _ \<Rightarrow> float_of_str v \<noteq> None
      | _ \<Rightarrow> True)"

text \<open>
  The values of a column: the cells that \<^verbatim>\<open>float\<close> accepts, in the order of the rows. A
  missing cell (\<^verbatim>\<open>TypeError\<close>) and a cell that is no number (\<^verbatim>\<open>ValueError\<close>) are passed over.
\<close>

definition column_values :: "csv_row list \<Rightarrow> string \<Rightarrow> fval list" where
  "column_values rows col =
     List.map_filter (\<lambda>r. case row_get r col of None \<Rightarrow> None | Some v \<Rightarrow> float_of_str v) rows"

text \<open>
  The line of statistics. The f-string computes the mean, the median and then the population
  standard deviation. On values that are not all finite \<^verbatim>\<open>statistics.pstdev\<close> of CPython 3.11
  raises \<^verbatim>\<open>AttributeError\<close>, which nothing in the program catches.
\<close>

definition no_numerator :: exc where
  "no_numerator = AttributeError ([CHR 0x27] @ ''float'' @ [CHR 0x27] @
     '' object has no attribute '' @ [CHR 0x27] @ ''numerator'' @ [CHR 0x27])"

definition stats_text :: "string \<Rightarrow> fval list \<Rightarrow> exc + string" where
  "stats_text col vals =
     (if list_all is_Finite vals
      then Inr (''Quick stats for '' @ [CHR 0x27] @ col @ [CHR 0x27] @ '': count='' @
                str_nat (length vals) @
                '', mean='' @ fmt3 (Finite (stats_mean (map real_of vals))) @
                '', median='' @ fmt3 (stats_median (map real_of vals)) @
                '', stdev='' @ fmt3 (Finite (stats_pstdev (map real_of vals))))
      else Inl no_numerator)"

definition handle_load_csv :: "env \<Rightarrow> rmatch \<Rightarrow> chatbot \<Rightarrow> outcome" where
  "handle_load_csv E m s =
     (case group m 1 of
        None \<Rightarrow> Inl no_strip
      | Some g \<Rightarrow>
          let path = strip_quotes (strip g) in
          (case read_csv E path of
             NotFound \<Rightarrow> Inr (reply E ''CSV not found. Please provide a valid path.'' s)
           | ReadFails e \<Rightarrow> Inl e
           | Table headers rows \<Rightarrow>
               let s1 = s\<lparr>loaded_csv := Some path, csv_headers := headers, csv_rows := rows\<rparr> in
               if rows = [] then Inr (reply E (''Loaded '' @ path @ '', but it has no rows.'') s1)
               else
                 let msg = ''Loaded '' @ path @ '' with '' @ str_nat (length rows) @
                           '' rows and '' @ str_nat (length headers) @ '' columns.'';
                     numeric_cols = filter (numeric_header rows) headers
                 in (case numeric_cols of
                       [] \<Rightarrow> Inr (reply E msg s1)
                     | col # _ \<Rightarrow>
                         let vals = column_values rows col in
                         if vals = [] then Inr (reply E msg s1)
                         else (case stats_text col vals of
                                 Inl e \<Rightarrow> Inl e
                               | Inr line \<Rightarrow> Inr (reply E (msg @ [CHR 0x0A] @ line) s1)))))"

text \<open>
  \<^verbatim>\<open>handle_complaint\<close>. Without a pending complaint it opens one. Otherwise the text fills
  the first slot that is still \<^verbatim>\<open>None\<close>; filling the order id ends the task.
\<close>

definition new_task :: task where
  "new_task = \<lparr>ttype = ''complaint'', product = None, issue = None, order_id = None\<rparr>"

text \<open>The text after \<^verbatim>\<open>Order ID:\<close>, that is \<^verbatim>\<open>slots['order_id'] or 'N/A'\<close>.\<close>

definition order_id_shown :: "string option \<Rightarrow> string" where
  "order_id_shown oid = (case oid of None \<Rightarrow> ''N/A'' | Some v \<Rightarrow> if v = [] then ''N/A'' else v)"

definition ticket_text :: "nat \<Rightarrow> string \<Rightarrow> string \<Rightarrow> string option \<Rightarrow> string" where
  "ticket_text n p i oid =
     ''Thanks! Ticket TKT-'' @ str_nat n @ '' created. Product: '' @ p @ ''. Issue: '' @ i @
     ''. Order ID: '' @ order_id_shown oid @ ''. Our team will follow up.''"

definition continue_complaint :: "env \<Rightarrow> string \<Rightarrow> task \<Rightarrow> chatbot \<Rightarrow> string \<times> chatbot" where
  "continue_complaint E text t s =
     (case product t of
        None \<Rightarrow>
          reply E ''Got it. Briefly describe the issue.''
            (s\<lparr>pending_task := Some (t\<lparr>product := Some text\<rparr>)\<rparr>)
      | Some p \<Rightarrow>
          (case issue t of
             None \<Rightarrow>
               reply E ''Please share your order ID (or say 'none').''
                 (s\<lparr>pending_task := Some (t\<lparr>issue := Some text\<rparr>)\<rparr>)
           | Some i \<Rightarrow>
               (case order_id t of
                  None \<Rightarrow>
                    let oid = strip text;
                        slot = (if lower oid = ''none'' then None else Some oid)
                    in (case randint E 10000 99999 s of (n, s1) \<Rightarrow>
                          reply E (ticket_text n p i slot) (s1\<lparr>pending_task := None\<rparr>))
                | Some v \<Rightarrow> reply E ''Your ticket is already created. Anything else?'' s)))"

definition handle_complaint :: "env \<Rightarrow> string \<Rightarrow> chatbot \<Rightarrow> string \<times> chatbot" where
  "handle_complaint E text s =
     (case pending_task s of
        None \<Rightarrow>
          reply E ''I'm opening a support ticket. What product is this about?''
            (s\<lparr>pending_task := Some new_task\<rparr>)
      | Some t \<Rightarrow>
          if ttype t \<noteq> ''complaint''
          then reply E ''I'm opening a support ticket. What product is this about?''
                 (s\<lparr>pending_task := Some new_task\<rparr>)
          else continue_complaint E text t s)"

definition handle_smalltalk :: "env \<Rightarrow> string \<Rightarrow> chatbot \<Rightarrow> outcome" where
  "handle_smalltalk E text s =
     (case sentiment_score E text of
        Inl e \<Rightarrow> Inl e
      | Inr sc \<Rightarrow>
          if float_less E (VFloat ''0.02'') sc
          then (case choice E SMALLTALK s of (t, s1) \<Rightarrow> Inr (reply E (t @ '' '' @ smile) s1))
          else if float_less E sc (VFloat ''-0.02'')
          then Inr (reply E (''Sorry to hear that. Tell me more'' @ dash @ ''maybe I can help.'') s)
          else (case choice E SMALLTALK s of (t, s1) \<Rightarrow> Inr (reply E t s1)))"

text \<open>
  The router, after the slot-filling test: the chain of tests on the intent. A match object
  is always true, so \<^verbatim>\<open>and m\<close> asks whether there is one.
\<close>

definition dispatch :: "env \<Rightarrow> string \<times> rmatch option \<Rightarrow> string \<Rightarrow> string \<Rightarrow> chatbot \<Rightarrow> outcome" where
  "dispatch E im user_text_raw user_text s =
     (case im of (intent, m) \<Rightarrow>
        if intent = ''greet'' then Inr (handle_greet E s)
        else if intent = ''goodbye'' then Inr (handle_goodbye E s)
        else if intent = ''set_name'' \<and> m \<noteq> None then handle_set_name E (the m) s
        else if intent = ''ask_time'' then Inr (handle_time E s)
        else if intent = ''ask_date'' then Inr (handle_date E s)
        else if intent = ''calculator'' then Inr (handle_calculator E user_text_raw s)
        else if intent = ''faq'' then Inr (handle_faq E user_text s)
        else if intent = ''load_csv'' \<and> m \<noteq> None then handle_load_csv E (the m) s
        else if intent = ''setname_cmd'' \<and> m \<noteq> None then handle_setname_cmd E (the m) s
        else if intent = ''help'' then Inr (handle_help E s)
        else if intent = ''reset'' then Inr (handle_reset E s)
        else if intent = ''export'' then handle_export E s
        else if intent = ''summary'' then Inr (handle_summary E s)
        else if intent = ''complaint'' then Inr (handle_complaint E user_text_raw s)
        else handle_smalltalk E user_text_raw s)"

text \<open>
  \<^verbatim>\<open>Chatbot.handle\<close>. The user's text goes to the history first. With a pending task and a
  normalised text that does not start with \<^verbatim>\<open>/\<close>, a complaint task takes the raw text;
  everything else goes through \<^verbatim>\<open>detect_intent\<close> on the normalised text.
\<close>

definition handle :: "env \<Rightarrow> string \<Rightarrow> chatbot \<Rightarrow> outcome" where
  "handle E user_text_raw s0 =
     (let user_text = normalize_text user_text_raw;
          s = add_history E ''user'' user_text_raw s0
      in case pending_task s of
           None \<Rightarrow> dispatch E (detect_intent user_text) user_text_raw user_text s
         | Some t \<Rightarrow>
             if \<not> startswith user_text ''/'' \<and> ttype t = ''complaint''
             then Inr (handle_complaint E user_text_raw s)
             else dispatch E (detect_intent user_text) user_text_raw user_text s)"

section \<open>Runs of the program and a sample environment\<close>

text \<open>A sequence of calls of \<^verbatim>\<open>add_history\<close>, each with its role and text.\<close>

fun add_all :: "env \<Rightarrow> (string \<times> string) list \<Rightarrow> chatbot \<Rightarrow> chatbot" where
  "add_all E [] s = s"
| "add_all E ((r, t) # xs) s = add_all E xs (add_history E r t s)"

text \<open>
  The entries that such a sequence appends when it starts at event \<open>k\<close>: each call reads
  the clock and then writes the file, two events.
\<close>

fun stamped :: "env \<Rightarrow> nat \<Rightarrow> (string \<times> string) list \<Rightarrow> entry list" where
  "stamped E k [] = []"
| "stamped E k ((r, t) # xs) = \<lparr>e_time = clock E k, e_role = r, e_text = t\<rparr> # stamped E (k + 2) xs"

text \<open>
  A sample environment for worked examples: a clock that shows the event number, a generator
  that returns the event number, a disk that takes every write, and a parser that gives for
  the sources \<^verbatim>\<open>2+2\<close> and \<^verbatim>\<open>10/0\<close> the trees \<^verbatim>\<open>ast.parse\<close> gives and refuses the rest.
\<close>

definition sample_parse :: "string \<Rightarrow> exc + expr" where
  "sample_parse src =
     (if src = ''2+2'' then Inr (BinOp (Constant (CInt 2)) Add (Constant (CInt 2)))
      else if src = ''10/0'' then Inr (BinOp (Constant (CInt 10)) Div (Constant (CInt 0)))
      else Inl (SyntaxError ''invalid syntax (<unknown>, line 1)''))"

definition sample_env :: env where
  "sample_env =
     \<lparr>clock = (\<lambda>k. ''t'' @ str_nat k),
      today = (\<lambda>k. ''Monday, January 01, 2024''),
      rand = (\<lambda>k. k),
      write_outcome_at = (\<lambda>k. WriteOk),
      ast_parse = sample_parse,
      float_arith = (\<lambda>op a b. Inl (TypeError ''no float arithmetic'')),
      int_truediv = (\<lambda>a b. Inl (TypeError ''no float arithmetic'')),
      int_negpow = (\<lambda>a b. Inl (TypeError ''no float arithmetic'')),
      float_neg = (\<lambda>v. v),
      float_less = (\<lambda>a b. False),
      read_csv = (\<lambda>p. NotFound),
      set_order = remdups\<rparr>"

text \<open>A state whose history holds 401 entries, as a memory file of that length loads.\<close>

definition crowded :: chatbot where
  "crowded =
     Chatbot_init (Stored \<lparr>user_name = Some ''Ann'', preferences = [],
       history = replicate 401 \<lparr>e_time = ''t'', e_role = ''user'', e_text = ''hi''\<rparr>\<rparr>)"

text \<open>A state in which a complaint waits for its product.\<close>

definition awaiting_product :: chatbot where
  "awaiting_product = (Chatbot_init Absent)\<lparr>pending_task := Some new_task\<rparr>"

text \<open>A state in which a complaint waits for its order id.\<close>

definition awaiting_order_id :: chatbot where
  "awaiting_order_id =
     (Chatbot_init Absent)\<lparr>pending_task :=
        Some (new_task\<lparr>product := Some ''Laptop'', issue := Some ''Screen flickers''\<rparr>)\<rparr>"

text \<open>
  Two tables as \<^verbatim>\<open>csv.DictReader\<close> reads them: the column \<^verbatim>\<open>Sales\<close> with the cells 1, 2, 3;
  and the column \<^verbatim>\<open>Sales\<close> with the cells 1 and \<^verbatim>\<open>inf\<close>.
\<close>

definition sales_123 :: csv_read where
  "sales_123 =
     Table [''Sales''] [[(''Sales'', Some ''1'')], [(''Sales'', Some ''2'')], [(''Sales'', Some ''3'')]]"

definition sales_inf :: csv_read where
  "sales_inf = Table [''Sales''] [[(''Sales'', Some ''1'')], [(''Sales'', Some ''inf'')]]"

text \<open>Whether \<^verbatim>\<open>float\<close> accepts the cell of a row in a column.\<close>

definition cell_parses :: "string \<Rightarrow> csv_row \<Rightarrow> bool" where
  "cell_parses col r =
     (case row_get r col of None \<Rightarrow> False | Some v \<Rightarrow> float_of_str v \<noteq> None)"

text \<open>The expression \<^verbatim>\<open>(1+2)+[3]\<close> as \<^verbatim>\<open>ast.parse\<close> gives it.\<close>

definition sum_with_list :: expr where
  "sum_with_list =
     BinOp (BinOp (Constant (CInt 1)) Add (Constant (CInt 2))) Add
           (OtherNode ''List'' [Constant (CInt 3)])"

section \<open>Intent detection returns the earliest matching pattern\<close>

lemma first_match_head:
  "map fst (filter (\<lambda>(name, pattern). search pattern text \<noteq> None) ps) = n # ns
   \<Longrightarrow> \<exists>m. first_match ps text = Some (n, m)"
  by (induction ps) (auto split: option.splits)

text \<open>
  C1. The patterns stand in the order greet, goodbye, set-name phrase, ask-time, ask-date,
  calculator, faq, load-csv, set-name command, help, reset, export, summary, complaint. For a
  text that one or more patterns match (so also for two or more), \<open>detect_intent\<close>
  returns the intent of the first of them in that order. The result is a function of the
  text alone: equal texts are classified alike.
\<close>

theorem detect_intent_earliest:
  "map fst INTENT_PATTERNS =
     [''greet'', ''goodbye'', ''set_name'', ''ask_time'', ''ask_date'', ''calculator'', ''faq'',
      ''load_csv'', ''setname_cmd'', ''help'', ''reset'', ''export'', ''summary'', ''complaint'']
   \<and> (matching_intents text = n # ns \<longrightarrow> fst (detect_intent text) = n)
   \<and> (text' = text \<longrightarrow> detect_intent text' = detect_intent text)"
proof -
  have order: "map fst INTENT_PATTERNS =
     [''greet'', ''goodbye'', ''set_name'', ''ask_time'', ''ask_date'', ''calculator'', ''faq'',
      ''load_csv'', ''setname_cmd'', ''help'', ''reset'', ''export'', ''summary'', ''complaint'']"
    by (simp add: INTENT_PATTERNS_def)
  have first: "fst (detect_intent text) = n" if "matching_intents text = n # ns"
  proof -
    from first_match_head [OF that [unfolded matching_intents_def]]
    obtain m where "first_match INTENT_PATTERNS text = Some (n, m)" ..
    then show ?thesis by (simp add: detect_intent_def)
  qed
  from order first show ?thesis by blast
qed

lemma matching_hi_time: "matching_intents ''hi, what time is it'' = [''greet'', ''ask_time'']"
  by code_simp

theorem detect_intent_earliest_witness:
  "matching_intents ''hi, what time is it'' = [''greet'', ''ask_time'']
   \<and> fst (detect_intent ''hi, what time is it'') = ''greet''"
  using detect_intent_earliest [of "''hi, what time is it''" "''greet''" "[''ask_time'']"]
    matching_hi_time
  by simp

section \<open>Memory: the history cap and persistence\<close>

lemma tick_save [simp]: "tick (save E s) = Suc (tick s)"
  by (simp add: save_def split: write_outcome.splits)

lemma data_save [simp]: "data (save E s) = data s"
  by (simp add: save_def split: write_outcome.splits)

lemma pending_save [simp]: "pending_task (save E s) = pending_task s"
  by (simp add: save_def split: write_outcome.splits)

lemma tick_add_history [simp]: "tick (add_history E r t s) = tick s + 2"
  by (simp add: add_history_def now_str_def Let_def)

lemma pending_add_history [simp]: "pending_task (add_history E r t s) = pending_task s"
  by (simp add: add_history_def now_str_def Let_def)

lemma history_add_history:
  "history (data (add_history E r t s)) =
     last_n 400 (history (data s) @ [\<lparr>e_time = clock E (tick s), e_role = r, e_text = t\<rparr>])"
  by (simp add: add_history_def now_str_def Let_def last_n_def)

lemma user_name_add_history [simp]: "user_name (data (add_history E r t s)) = user_name (data s)"
  by (simp add: add_history_def now_str_def Let_def)

lemma preferences_add_history [simp]:
  "preferences (data (add_history E r t s)) = preferences (data s)"
  by (simp add: add_history_def now_str_def Let_def)

lemma last_n_append: "last_n n (last_n n xs @ ys) = last_n n (xs @ ys)"
proof (cases "length xs \<le> n")
  case True
  then show ?thesis by (simp add: last_n_def)
next
  case False
  then have a: "length xs - n + n = length xs"
    and b: "length xs + length ys - length xs = length ys"
    and c: "length ys + (length xs - n) = length xs + length ys - n"
    and d: "length xs + length ys - n - length xs = length ys - n"
    by simp_all
  show ?thesis
    by (simp add: last_n_def a b c d)
qed

lemma length_last_n [simp]: "length (last_n n xs) = min n (length xs)"
  by (simp add: last_n_def)

lemma last_n_short: "length xs \<le> n \<Longrightarrow> last_n n xs = xs"
  by (simp add: last_n_def)

lemma history_add_all:
  "history (data (add_all E xs s)) =
     (if xs = [] then history (data s)
      else last_n 400 (history (data s) @ stamped E (tick s) xs))"
proof (induction xs arbitrary: s)
  case Nil
  show ?case by simp
next
  case (Cons x xs)
  obtain r t where x: "x = (r, t)" by (cases x)
  show ?case
  proof (cases "xs = []")
    case True
    with x show ?thesis by (simp add: history_add_history)
  next
    case False
    with x Cons.IH [of "add_history E r t s"] show ?thesis
      by (simp add: history_add_history last_n_append)
  qed
qed

text \<open>
  C5. After any sequence of appends the history holds at most 400 entries, and it is
  exactly the last 400 of the entries before followed by the appended ones, in their
  order: the oldest are the ones dropped. This holds from a history within the cap (so
  from the empty one) for every sequence, and from any history once one entry is appended.
\<close>

theorem history_cap:
  assumes "length (history (data s)) \<le> 400 \<or> xs \<noteq> []"
  shows "history (data (add_all E xs s)) = last_n 400 (history (data s) @ stamped E (tick s) xs)
         \<and> length (history (data (add_all E xs s))) \<le> 400"
proof (cases "xs = []")
  case True
  with assms have "length (history (data s)) \<le> 400" by simp
  with True show ?thesis by (simp add: last_n_short)
next
  case False
  then show ?thesis by (simp add: history_add_all)
qed

lemma data_Chatbot_init_Stored [simp]: "data (Chatbot_init (Stored d)) = d"
  by (simp add: Chatbot_init_def load_def)

lemma length_crowded: "length (history (data crowded)) = 401"
  by (simp add: crowded_def)

lemma tick_crowded: "tick crowded = 0"
  by (simp add: crowded_def Chatbot_init_def load_def)

theorem history_cap_witness:
  "(length (history (data crowded)) \<le> 400 \<or> [(''user'', ''hi'')] \<noteq> [])
   \<and> length (history (data (add_all sample_env [(''user'', ''hi'')] crowded))) = 400
   \<and> last (history (data (add_all sample_env [(''user'', ''hi'')] crowded)))
       = \<lparr>e_time = clock sample_env 0, e_role = ''user'', e_text = ''hi''\<rparr>"
proof -
  have h: "length (history (data crowded)) \<le> 400 \<or> [(''user'', ''hi'')] \<noteq> []" by simp
  from history_cap [OF h, of sample_env]
  have eq: "history (data (add_all sample_env [(''user'', ''hi'')] crowded))
      = last_n 400 (history (data crowded) @ stamped sample_env (tick crowded) [(''user'', ''hi'')])"
    by simp
  have len: "length (history (data (add_all sample_env [(''user'', ''hi'')] crowded))) = 400"
    unfolding eq by (simp add: length_crowded)
  have lst: "last (history (data (add_all sample_env [(''user'', ''hi'')] crowded)))
       = \<lparr>e_time = clock sample_env 0, e_role = ''user'', e_text = ''hi''\<rparr>"
    unfolding eq by (simp add: last_n_def length_crowded tick_crowded)
  from h len lst show ?thesis by simp
qed

lemma memory_file_save_ok:
  "write_outcome_at E (tick s) = WriteOk \<Longrightarrow> memory_file (save E s) = Stored (data s)"
  by (simp add: save_def)

lemma memory_file_add_history_ok:
  "write_outcome_at E (Suc (tick s)) = WriteOk \<Longrightarrow>
     memory_file (add_history E r t s) = Stored (data (add_history E r t s))"
  by (simp add: add_history_def now_str_def Let_def save_def)

lemma memory_file_add_all_ok:
  "\<forall>k. write_outcome_at E k = WriteOk \<Longrightarrow> xs \<noteq> [] \<Longrightarrow>
     memory_file (add_all E xs s) = Stored (data (add_all E xs s))"
proof (induction xs arbitrary: s)
  case Nil
  then show ?case by simp
next
  case (Cons x xs)
  obtain r t where x: "x = (r, t)" by (cases x)
  show ?case
  proof (cases "xs = []")
    case True
    with x Cons.prems show ?thesis by (simp add: memory_file_add_history_ok)
  next
    case False
    with x Cons.IH [of "add_history E r t s"] Cons.prems show ?thesis by simp
  qed
qed

text \<open>
  C9, as the claim states it, fails for a history beyond 400 entries: \<open>save\<close> writes
  the whole record and a new session loads the whole record, 401 entries here, not the
  last 400.
\<close>

theorem reload_not_truncated:
  "history (data (Chatbot_init (memory_file (save sample_env crowded))))
     \<noteq> last_n 400 (history (data crowded))"
proof -
  have "memory_file (save sample_env crowded) = Stored (data crowded)"
    by (rule memory_file_save_ok) (simp add: sample_env_def)
  then have "length (history (data (Chatbot_init (memory_file (save sample_env crowded))))) = 401"
    by (simp add: length_crowded)
  moreover have "length (last_n 400 (history (data crowded))) = 400"
    by (simp add: last_n_def length_crowded)
  ultimately show ?thesis by auto
qed

text \<open>
  C9, amended. When the write succeeds, a record saved and then loaded by a new session is
  the record that was saved: the same name, preferences and history, whatever the length of
  the history. \<open>save\<close> and \<open>load\<close> never truncate; the cap of 400 is applied by
  \<open>add_history\<close> before it saves, so after appends whose writes succeed a new session
  loads the last 400 of the entries, which is also the history in memory.
\<close>

theorem save_load_roundtrip:
  "(write_outcome_at E (tick s) = WriteOk \<longrightarrow>
      data (Chatbot_init (memory_file (save E s))) = data s)
   \<and> ((\<forall>k. write_outcome_at E k = WriteOk) \<and> xs \<noteq> [] \<longrightarrow>
        data (Chatbot_init (memory_file (add_all E xs s))) = data (add_all E xs s)
        \<and> history (data (Chatbot_init (memory_file (add_all E xs s))))
            = last_n 400 (history (data s) @ stamped E (tick s) xs))"
proof -
  have one: "data (Chatbot_init (memory_file (save E s))) = data s"
    if "write_outcome_at E (tick s) = WriteOk"
    using memory_file_save_ok [OF that] by simp
  have many: "data (Chatbot_init (memory_file (add_all E xs s))) = data (add_all E xs s)
        \<and> history (data (Chatbot_init (memory_file (add_all E xs s))))
            = last_n 400 (history (data s) @ stamped E (tick s) xs)"
    if "\<forall>k. write_outcome_at E k = WriteOk" and "xs \<noteq> []"
    using memory_file_add_all_ok [OF that] that(2) by (simp add: history_add_all)
  from one many show ?thesis by blast
qed

theorem save_load_roundtrip_witness:
  "write_outcome_at sample_env (tick crowded) = WriteOk
   \<and> data (Chatbot_init (memory_file (save sample_env crowded))) = data crowded
   \<and> (\<forall>k. write_outcome_at sample_env k = WriteOk)
   \<and> [(''user'', ''hi'')] \<noteq> []
   \<and> data (Chatbot_init (memory_file (add_all sample_env [(''user'', ''hi'')] crowded)))
       = data (add_all sample_env [(''user'', ''hi'')] crowded)"
proof -
  have ok: "\<forall>k. write_outcome_at sample_env k = WriteOk" by (simp add: sample_env_def)
  with save_load_roundtrip [of sample_env crowded "[(''user'', ''hi'')]"]
  show ?thesis by simp
qed

section \<open>The router and the complaint flow\<close>

lemma detect_reset:
  "detect_intent ''/reset'' = (''reset'', Some \<lparr>m_start = 0, m_end = 6, m_groups = []\<rparr>)"
  by code_simp

lemma detect_help:
  "detect_intent ''/help'' = (''help'', Some \<lparr>m_start = 0, m_end = 5, m_groups = []\<rparr>)"
  by code_simp

lemma dispatch_reset: "dispatch E (''reset'', m) raw nt s = Inr (handle_reset E s)"
  by (simp add: dispatch_def)

lemma dispatch_help: "dispatch E (''help'', m) raw nt s = Inr (handle_help E s)"
  by (simp add: dispatch_def)

lemma dispatch_complaint: "dispatch E (''complaint'', m) raw nt s = Inr (handle_complaint E raw s)"
  by (simp add: dispatch_def)

lemma handle_pending:
  assumes "pending_task s = Some t" and "ttype t = ''complaint''"
  shows "handle E x s =
     (if startswith (normalize_text x) ''/''
      then dispatch E (detect_intent (normalize_text x)) x (normalize_text x)
             (add_history E ''user'' x s)
      else Inr (handle_complaint E x (add_history E ''user'' x s)))"
  using assms by (simp add: handle_def Let_def)

lemma handle_complaint_pending:
  assumes "pending_task s = Some t" and "ttype t = ''complaint''"
  shows "handle_complaint E x s = continue_complaint E x t s"
  using assms by (simp add: handle_complaint_def)

lemma handle_command:
  assumes "startswith (normalize_text x) ''/''"
  shows "handle E x s =
     dispatch E (detect_intent (normalize_text x)) x (normalize_text x)
       (add_history E ''user'' x s)"
  using assms by (simp add: handle_def Let_def split: option.splits)

lemma handle_idle:
  assumes "pending_task s = None"
  shows "handle E x s =
     dispatch E (detect_intent (normalize_text x)) x (normalize_text x)
       (add_history E ''user'' x s)"
  using assms by (simp add: handle_def Let_def)

lemma continue_product:
  "product t = None \<Longrightarrow>
     continue_complaint E x t s =
       reply E ''Got it. Briefly describe the issue.''
         (s\<lparr>pending_task := Some (t\<lparr>product := Some x\<rparr>)\<rparr>)"
  by (simp add: continue_complaint_def)

lemma continue_issue:
  "product t = Some p \<Longrightarrow> issue t = None \<Longrightarrow>
     continue_complaint E x t s =
       reply E ''Please share your order ID (or say 'none').''
         (s\<lparr>pending_task := Some (t\<lparr>issue := Some x\<rparr>)\<rparr>)"
  by (simp add: continue_complaint_def)

lemma continue_order_id:
  "product t = Some p \<Longrightarrow> issue t = Some i \<Longrightarrow> order_id t = None \<Longrightarrow>
     continue_complaint E x t s =
       reply E (ticket_text (10000 + rand E (tick s) mod 90000) p i
                  (if lower (strip x) = ''none'' then None else Some (strip x)))
         (s\<lparr>tick := Suc (tick s), pending_task := None\<rparr>)"
  by (simp add: continue_complaint_def randint_def Let_def)

lemma pending_reply [simp]: "pending_task (snd (reply E text s)) = pending_task s"
  by (simp add: reply_def)

lemma tick_reply [simp]: "tick (snd (reply E text s)) = tick s + 2"
  by (simp add: reply_def)

lemma fst_reply [simp]: "fst (reply E text s) = text"
  by (simp add: reply_def)

lemma reply_pair: "reply E text s = (text, snd (reply E text s))"
  by (simp add: reply_def)

text \<open>The four steps of a complaint, each as a call of the router.\<close>

lemma step_start:
  assumes "pending_task s = None"
    and "fst (detect_intent (normalize_text x)) = ''complaint''"
  shows "\<exists>s'. handle E x s =
            Inr (''I'm opening a support ticket. What product is this about?'', s')
          \<and> pending_task s' = Some new_task \<and> tick s' = tick s + 4"
proof -
  obtain m where d: "detect_intent (normalize_text x) = (''complaint'', m)"
    using assms(2) by (cases "detect_intent (normalize_text x)") simp
  let ?a = "add_history E ''user'' x s"
  have "handle E x s = Inr (handle_complaint E x ?a)"
    using assms(1) by (simp add: handle_idle d dispatch_complaint)
  moreover have "handle_complaint E x ?a =
      reply E ''I'm opening a support ticket. What product is this about?''
        (?a\<lparr>pending_task := Some new_task\<rparr>)"
    using assms(1) by (simp add: handle_complaint_def)
  ultimately show ?thesis
    by (simp add: reply_def)
qed

lemma step_product:
  assumes "pending_task s = Some t" and "ttype t = ''complaint''" and "product t = None"
    and "\<not> startswith (normalize_text x) ''/''"
  shows "\<exists>s'. handle E x s = Inr (''Got it. Briefly describe the issue.'', s')
          \<and> pending_task s' = Some (t\<lparr>product := Some x\<rparr>) \<and> tick s' = tick s + 4"
proof -
  let ?a = "add_history E ''user'' x s"
  have p: "pending_task ?a = Some t" using assms(1) by simp
  have "handle E x s = Inr (continue_complaint E x t ?a)"
    using assms by (simp add: handle_pending handle_complaint_pending [OF p])
  then show ?thesis
    using assms(3) by (simp add: continue_product reply_def)
qed

lemma step_issue:
  assumes "pending_task s = Some t" and "ttype t = ''complaint''"
    and "product t = Some p" and "issue t = None"
    and "\<not> startswith (normalize_text x) ''/''"
  shows "\<exists>s'. handle E x s = Inr (''Please share your order ID (or say 'none').'', s')
          \<and> pending_task s' = Some (t\<lparr>issue := Some x\<rparr>) \<and> tick s' = tick s + 4"
proof -
  let ?a = "add_history E ''user'' x s"
  have p: "pending_task ?a = Some t" using assms(1) by simp
  have "handle E x s = Inr (continue_complaint E x t ?a)"
    using assms by (simp add: handle_pending handle_complaint_pending [OF p])
  then show ?thesis
    using assms(3,4) by (simp add: continue_issue reply_def)
qed

lemma step_order_id:
  assumes "pending_task s = Some t" and "ttype t = ''complaint''"
    and "product t = Some p" and "issue t = Some i" and "order_id t = None"
    and "\<not> startswith (normalize_text x) ''/''"
  shows "\<exists>s'. handle E x s =
            Inr (ticket_text (10000 + rand E (tick s + 2) mod 90000) p i
                   (if lower (strip x) = ''none'' then None else Some (strip x)), s')
          \<and> pending_task s' = None"
proof -
  let ?a = "add_history E ''user'' x s"
  have p: "pending_task ?a = Some t" using assms(1) by simp
  have "handle E x s = Inr (continue_complaint E x t ?a)"
    using assms by (simp add: handle_pending handle_complaint_pending [OF p])
  then show ?thesis
    using assms(3,4,5) by (simp add: continue_order_id reply_def)
qed

lemma startswith_append [simp]: "startswith (k @ b) k"
  by (simp add: startswith_def)

lemma contains_here: "contains (k @ b) k"
proof (cases "k @ b")
  case Nil
  then show ?thesis by simp
next
  case (Cons c cs)
  have "startswith (k @ b) k" by simp
  with Cons have "startswith (c # cs) k" by simp
  with Cons show ?thesis by simp
qed

lemma contains_mid: "contains (a @ k @ b) k"
proof (induction a)
  case Nil
  show ?case using contains_here by simp
next
  case (Cons c a)
  then show ?case by simp
qed

lemma str_nat_small: "n < 10 \<Longrightarrow> str_nat n = [digit_char n]"
  by (simp add: str_nat.simps)

lemma str_nat_step: "10 \<le> n \<Longrightarrow> str_nat n = str_nat (n div 10) @ [digit_char (n mod 10)]"
  by (subst str_nat.simps) simp

lemma length_str_nat_5:
  assumes "10000 \<le> n" and "n \<le> 99999"
  shows "length (str_nat n) = 5"
proof -
  have a: "10 \<le> n" "10 \<le> n div 10" "10 \<le> n div 10 div 10" "10 \<le> n div 10 div 10 div 10"
    using assms by simp_all
  have b: "n div 10 div 10 div 10 div 10 < 10"
    using assms by simp
  show ?thesis
    by (simp add: str_nat_step [OF a(1)] str_nat_step [OF a(2)] str_nat_step [OF a(3)]
        str_nat_step [OF a(4)] str_nat_small [OF b])
qed

lemma digit_char_facts:
  assumes "d < 10"
  shows "is_digit (digit_char d)" and "digit_of (digit_char d) = int d"
proof -
  from assms have "d = 0 \<or> d = 1 \<or> d = 2 \<or> d = 3 \<or> d = 4 \<or> d = 5 \<or> d = 6 \<or> d = 7
      \<or> d = 8 \<or> d = 9"
    by arith
  then show "is_digit (digit_char d)" and "digit_of (digit_char d) = int d"
    by (auto simp: digit_char_def is_digit_def digit_of_def)
qed

lemma digits_value_snoc:
  "digits_value acc (xs @ [c]) = 10 * digits_value acc xs + digit_of c"
  by (induction xs arbitrary: acc) simp_all

lemma str_nat_digits: "list_all is_digit (str_nat n)"
proof (induction n rule: str_nat.induct)
  case (1 n)
  show ?case
  proof (cases "n < 10")
    case True
    then show ?thesis by (simp add: str_nat_small digit_char_facts)
  next
    case False
    then have "list_all is_digit (str_nat (n div 10))" using "1" by simp
    with False show ?thesis by (simp add: str_nat_step digit_char_facts)
  qed
qed

lemma str_nat_value: "digits_value 0 (str_nat n) = int n"
proof (induction n rule: str_nat.induct)
  case (1 n)
  show ?case
  proof (cases "n < 10")
    case True
    then show ?thesis by (simp add: str_nat_small digit_char_facts)
  next
    case False
    then have "digits_value 0 (str_nat (n div 10)) = int (n div 10)" using "1" by simp
    with False show ?thesis
      by (simp add: str_nat_step digits_value_snoc digit_char_facts zdiv_int zmod_int)
  qed
qed

text \<open>
  C2. A complaint opened by a text of intent complaint while no task is pending, and then
  given three replies none of which is a command, ends with no pending task. The replies of
  the four turns are the opening prompt, the prompt for the issue, the prompt for the order
  id, and the confirmation. The confirmation is spelled out: it holds \<^verbatim>\<open>TKT-\<close> followed by
  five decimal digits that write a number from 10000 to 99999, the first reply as product,
  the second as issue, and after \<^verbatim>\<open>Order ID:\<close> the third reply stripped of the white space
  around it, or \<^verbatim>\<open>N/A\<close> when the stripped reply is \<^verbatim>\<open>none\<close> (the slot is then \<^verbatim>\<open>None\<close>) or
  empty. So the confirmation contains the identifier, the product, the issue, and the order
  id whenever the slot holds one.
\<close>

theorem complaint_flow_completes:
  assumes "pending_task s0 = None"
    and "fst (detect_intent (normalize_text x0)) = ''complaint''"
    and "\<not> startswith (normalize_text x1) ''/''"
    and "\<not> startswith (normalize_text x2) ''/''"
    and "\<not> startswith (normalize_text x3) ''/''"
  shows "\<exists>s1 s2 s3 s4 n ds shown confirmation.
      handle E x0 s0 = Inr (''I'm opening a support ticket. What product is this about?'', s1)
    \<and> handle E x1 s1 = Inr (''Got it. Briefly describe the issue.'', s2)
    \<and> handle E x2 s2 = Inr (''Please share your order ID (or say 'none').'', s3)
    \<and> handle E x3 s3 = Inr (confirmation, s4)
    \<and> pending_task s4 = None
    \<and> confirmation =
          ''Thanks! Ticket TKT-'' @ ds @ '' created. Product: '' @ x1 @ ''. Issue: '' @ x2 @
          ''. Order ID: '' @ shown @ ''. Our team will follow up.''
    \<and> n = 10000 + rand E (tick s0 + 14) mod 90000
    \<and> 10000 \<le> n \<and> n \<le> 99999
    \<and> length ds = 5 \<and> list_all is_digit ds \<and> digits_value 0 ds = int n
    \<and> shown = (if lower (strip x3) = ''none'' \<or> strip x3 = [] then ''N/A'' else strip x3)
    \<and> contains confirmation (''TKT-'' @ ds)
    \<and> contains confirmation x1
    \<and> contains confirmation x2
    \<and> (lower (strip x3) \<noteq> ''none'' \<longrightarrow> contains confirmation (strip x3))"
proof -
  from step_start [OF assms(1,2), of E]
  obtain s1 where h1:
      "handle E x0 s0 = Inr (''I'm opening a support ticket. What product is this about?'', s1)"
    and p1: "pending_task s1 = Some new_task" and t1: "tick s1 = tick s0 + 4"
    by blast
  have "ttype new_task = ''complaint''" "product new_task = None"
    by (simp_all add: new_task_def)
  from step_product [OF p1 this assms(3), of E]
  obtain s2 where h2: "handle E x1 s1 = Inr (''Got it. Briefly describe the issue.'', s2)"
    and p2: "pending_task s2 = Some (new_task\<lparr>product := Some x1\<rparr>)"
    and t2: "tick s2 = tick s1 + 4"
    by blast
  have "ttype (new_task\<lparr>product := Some x1\<rparr>) = ''complaint''"
    "product (new_task\<lparr>product := Some x1\<rparr>) = Some x1"
    "issue (new_task\<lparr>product := Some x1\<rparr>) = None"
    by (simp_all add: new_task_def)
  from step_issue [OF p2 this assms(4), of E]
  obtain s3 where h3:
      "handle E x2 s2 = Inr (''Please share your order ID (or say 'none').'', s3)"
    and p3: "pending_task s3 = Some (new_task\<lparr>product := Some x1, issue := Some x2\<rparr>)"
    and t3: "tick s3 = tick s2 + 4"
    by auto
  let ?n = "10000 + rand E (tick s3 + 2) mod 90000"
  let ?oid = "if lower (strip x3) = ''none'' then None else Some (strip x3)"
  let ?shown = "if lower (strip x3) = ''none'' \<or> strip x3 = [] then ''N/A'' else strip x3"
  let ?pre = "''Thanks! Ticket TKT-'' @ str_nat ?n @ '' created. Product: '' @ x1 @
      ''. Issue: '' @ x2 @ ''. Order ID: ''"
  let ?c = "?pre @ ?shown @ ''. Our team will follow up.''"
  have "ttype (new_task\<lparr>product := Some x1, issue := Some x2\<rparr>) = ''complaint''"
    "product (new_task\<lparr>product := Some x1, issue := Some x2\<rparr>) = Some x1"
    "issue (new_task\<lparr>product := Some x1, issue := Some x2\<rparr>) = Some x2"
    "order_id (new_task\<lparr>product := Some x1, issue := Some x2\<rparr>) = None"
    by (simp_all add: new_task_def)
  from step_order_id [OF p3 this assms(5), of E]
  obtain s4 where h4': "handle E x3 s3 = Inr (ticket_text ?n x1 x2 ?oid, s4)"
    and p4: "pending_task s4 = None"
    by blast
  have "ticket_text ?n x1 x2 ?oid = ?c"
    by (simp add: ticket_text_def order_id_shown_def)
  with h4' have h4: "handle E x3 s3 = Inr (?c, s4)" by simp
  have e: "tick s3 + 2 = tick s0 + 14"
    by (simp add: t1 t2 t3)
  have n: "?n = 10000 + rand E (tick s0 + 14) mod 90000"
    unfolding e by (rule refl)
  have lo: "10000 \<le> ?n" by simp
  have hi: "?n \<le> 99999"
  proof -
    have "rand E (tick s3 + 2) mod 90000 < 90000" by simp
    then show ?thesis by linarith
  qed
  note len = length_str_nat_5 [OF lo hi]
  have c1: "contains ?c (''TKT-'' @ str_nat ?n)"
    using contains_mid [of "''Thanks! Ticket ''" "''TKT-'' @ str_nat ?n"] by simp
  have c2: "contains ?c x1"
    using contains_mid [of "''Thanks! Ticket TKT-'' @ str_nat ?n @ '' created. Product: ''" x1]
    by simp
  have c3: "contains ?c x2"
    using contains_mid [of "''Thanks! Ticket TKT-'' @ str_nat ?n @ '' created. Product: '' @ x1
        @ ''. Issue: ''" x2]
    by simp
  have c4: "contains ?c (strip x3)" if "lower (strip x3) \<noteq> ''none''"
  proof (cases "strip x3 = []")
    case True
    have "contains ?c []" by (cases ?c) (simp_all add: startswith_def)
    with True show ?thesis by simp
  next
    case False
    with that have "?shown = strip x3" by simp
    with contains_mid [of ?pre "strip x3" "''. Our team will follow up.''"]
    show ?thesis by simp
  qed
  show ?thesis
    apply (rule exI [of _ s1], rule exI [of _ s2], rule exI [of _ s3], rule exI [of _ s4])
    apply (rule exI [of _ ?n], rule exI [of _ "str_nat ?n"], rule exI [of _ ?shown])
    apply (rule exI [of _ ?c])
    using h1 h2 h3 h4 p4 n lo hi len str_nat_digits [of ?n] str_nat_value [of ?n] c1 c2 c3 c4
    by simp
qed

lemma tick_init: "tick (Chatbot_init Absent) = 0"
  by (simp add: Chatbot_init_def load_def)

lemma pending_init: "pending_task (Chatbot_init Absent) = None"
  by (simp add: Chatbot_init_def load_def)

lemma problem_is_complaint:
  "fst (detect_intent (normalize_text ''I have a problem'')) = ''complaint''"
  by code_simp

lemma replies_are_no_commands:
  "\<not> startswith (normalize_text ''Laptop'') ''/''"
  "\<not> startswith (normalize_text ''Screen flickers'') ''/''"
  "\<not> startswith (normalize_text ''A-77'') ''/''"
  by code_simp+

lemma order_id_A77: "strip ''A-77'' = ''A-77''" "lower ''A-77'' \<noteq> ''none''"
  by code_simp+

lemma digit_chars:
  "char_of (48 :: int) = CHR ''0''" "char_of (49 :: int) = CHR ''1''"
  "char_of (50 :: int) = CHR ''2''" "char_of (51 :: int) = CHR ''3''"
  "char_of (52 :: int) = CHR ''4''" "char_of (53 :: int) = CHR ''5''"
  "char_of (54 :: int) = CHR ''6''" "char_of (55 :: int) = CHR ''7''"
  "char_of (56 :: int) = CHR ''8''" "char_of (57 :: int) = CHR ''9''"
  by code_simp+

lemma digit_shape:
  assumes "is_digit x"
  shows "x = digit_char (nat (digit_of x))"
proof -
  from assms have "48 \<le> (of_char x :: int)" "(of_char x :: int) \<le> 57"
    by (simp_all add: is_digit_def Let_def)
  then have "(of_char x :: int) = 48 \<or> (of_char x :: int) = 49 \<or> (of_char x :: int) = 50
      \<or> (of_char x :: int) = 51 \<or> (of_char x :: int) = 52 \<or> (of_char x :: int) = 53
      \<or> (of_char x :: int) = 54 \<or> (of_char x :: int) = 55 \<or> (of_char x :: int) = 56
      \<or> (of_char x :: int) = 57"
    by arith
  moreover have "x = char_of (of_char x :: int)" by simp
  ultimately show ?thesis
    by (elim disjE) (simp_all add: digit_of_def digit_char_def digit_chars)
qed

lemma last_digit:
  assumes "0 \<le> e \<and> e \<le> (9::int)" and "10 * q + e = 10 * q' + e'" and "0 \<le> e' \<and> e' \<le> 9"
  shows "e = e' \<and> q = q'"
  using assms by arith

lemma five_digits_10014:
  assumes "length ds = 5" and "list_all is_digit ds" and "digits_value 0 ds = 10014"
  shows "ds = ''10014''"
proof -
  from assms(1) have "length ds = Suc (Suc (Suc (Suc (Suc 0))))" by simp
  then obtain a b c d e where ds: "ds = [a, b, c, d, e]"
    by (auto simp: length_Suc_conv)
  have dig: "0 \<le> digit_of x \<and> digit_of x \<le> 9" if "is_digit x" for x
    using that by (auto simp: is_digit_def digit_of_def Let_def)
  from assms(2) ds have all: "is_digit a" "is_digit b" "is_digit c" "is_digit d" "is_digit e"
    by simp_all
  from assms(3) ds have v: "10 * (10 * (10 * (10 * digit_of a + digit_of b) + digit_of c)
      + digit_of d) + digit_of e = 10 * 1001 + 4"
    by simp
  from last_digit [OF dig [OF all(5)] v]
  have e: "digit_of e = 4"
    and v1: "10 * (10 * (10 * digit_of a + digit_of b) + digit_of c) + digit_of d = 10 * 100 + 1"
    by simp_all
  from last_digit [OF dig [OF all(4)] v1]
  have d: "digit_of d = 1"
    and v2: "10 * (10 * digit_of a + digit_of b) + digit_of c = 10 * 10 + 0"
    by simp_all
  from last_digit [OF dig [OF all(3)] v2]
  have c: "digit_of c = 0" and v3: "10 * digit_of a + digit_of b = 10 * 1 + 0"
    by simp_all
  from last_digit [OF dig [OF all(2)] v3]
  have b: "digit_of b = 0" and a: "digit_of a = 1"
    by simp_all
  from digit_shape [OF all(1)] digit_shape [OF all(2)] digit_shape [OF all(3)]
    digit_shape [OF all(4)] digit_shape [OF all(5)]
  show ?thesis by (simp add: ds a b c d e digit_char_def)
qed
theorem complaint_flow_completes_witness:
  "pending_task (Chatbot_init Absent) = None
   \<and> fst (detect_intent (normalize_text ''I have a problem'')) = ''complaint''
   \<and> \<not> startswith (normalize_text ''Laptop'') ''/''
   \<and> \<not> startswith (normalize_text ''Screen flickers'') ''/''
   \<and> \<not> startswith (normalize_text ''A-77'') ''/''
   \<and> (\<exists>s1 s2 s3 s4.
        handle sample_env ''I have a problem'' (Chatbot_init Absent)
          = Inr (''I'm opening a support ticket. What product is this about?'', s1)
      \<and> handle sample_env ''Laptop'' s1 = Inr (''Got it. Briefly describe the issue.'', s2)
      \<and> handle sample_env ''Screen flickers'' s2
          = Inr (''Please share your order ID (or say 'none').'', s3)
      \<and> handle sample_env ''A-77'' s3
          = Inr (''Thanks! Ticket TKT-10014 created. Product: Laptop. Issue: Screen flickers. Order ID: A-77. Our team will follow up.'', s4)
      \<and> pending_task s4 = None)"
proof -
  from complaint_flow_completes [OF pending_init problem_is_complaint replies_are_no_commands,
      of sample_env]
  obtain s1 s2 s3 s4 n ds shown confirmation where
      h1: "handle sample_env ''I have a problem'' (Chatbot_init Absent)
          = Inr (''I'm opening a support ticket. What product is this about?'', s1)"
    and h2: "handle sample_env ''Laptop'' s1 = Inr (''Got it. Briefly describe the issue.'', s2)"
    and h3: "handle sample_env ''Screen flickers'' s2
          = Inr (''Please share your order ID (or say 'none').'', s3)"
    and h4: "handle sample_env ''A-77'' s3 = Inr (confirmation, s4)"
    and p4: "pending_task s4 = None"
    and c: "confirmation =
          ''Thanks! Ticket TKT-'' @ ds @ '' created. Product: '' @ ''Laptop'' @ ''. Issue: '' @
          ''Screen flickers'' @ ''. Order ID: '' @ shown @ ''. Our team will follow up.''"
    and n: "n = 10000 + rand sample_env (tick (Chatbot_init Absent) + 14) mod 90000"
    and ds: "length ds = 5" "list_all is_digit ds" "digits_value 0 ds = int n"
    and shown: "shown = (if lower (strip ''A-77'') = ''none'' \<or> strip ''A-77'' = []
                         then ''N/A'' else strip ''A-77'')"
    by blast
  have "n = 10014" using n by (simp add: tick_init sample_env_def)
  with ds have "ds = ''10014''" by (simp add: five_digits_10014)
  moreover have "shown = ''A-77''" using shown order_id_A77 by simp
  ultimately have "handle sample_env ''A-77'' s3
      = Inr (''Thanks! Ticket TKT-10014 created. Product: Laptop. Issue: Screen flickers. Order ID: A-77. Our team will follow up.'', s4)"
    using h4 c by simp
  with h1 h2 h3 p4 have "\<exists>s1 s2 s3 s4.
        handle sample_env ''I have a problem'' (Chatbot_init Absent)
          = Inr (''I'm opening a support ticket. What product is this about?'', s1)
      \<and> handle sample_env ''Laptop'' s1 = Inr (''Got it. Briefly describe the issue.'', s2)
      \<and> handle sample_env ''Screen flickers'' s2
          = Inr (''Please share your order ID (or say 'none').'', s3)
      \<and> handle sample_env ''A-77'' s3
          = Inr (''Thanks! Ticket TKT-10014 created. Product: Laptop. Issue: Screen flickers. Order ID: A-77. Our team will follow up.'', s4)
      \<and> pending_task s4 = None"
    by blast
  with pending_init problem_is_complaint replies_are_no_commands show ?thesis by blast
qed

text \<open>
  C4. While a complaint is pending, a text whose normalised form does not start with \<^verbatim>\<open>/\<close>
  goes to \<open>handle_complaint\<close>, which continues the pending task with it, whatever
  intent the patterns would give the text; a text whose normalised form starts with \<^verbatim>\<open>/\<close>
  is dispatched on the intent that \<open>detect_intent\<close> gives its normalised form.
\<close>

theorem pending_complaint_routing:
  assumes "pending_task s = Some t" and "ttype t = ''complaint''"
  shows "(\<not> startswith (normalize_text x) ''/'' \<longrightarrow>
            handle E x s = Inr (handle_complaint E x (add_history E ''user'' x s))
          \<and> handle_complaint E x (add_history E ''user'' x s)
              = continue_complaint E x t (add_history E ''user'' x s))
       \<and> (startswith (normalize_text x) ''/'' \<longrightarrow>
            handle E x s = dispatch E (detect_intent (normalize_text x)) x (normalize_text x)
                             (add_history E ''user'' x s))"
proof -
  have "pending_task (add_history E ''user'' x s) = Some t" using assms(1) by simp
  from handle_complaint_pending [OF this assms(2)] handle_pending [OF assms]
  show ?thesis by simp
qed

lemma pending_awaiting_product:
  "pending_task awaiting_product = Some new_task" "ttype new_task = ''complaint''"
  "product new_task = None"
  by (simp_all add: awaiting_product_def new_task_def)

lemma hello_problem:
  "\<not> startswith (normalize_text ''hello, I have a problem'') ''/''"
  "matching_intents (normalize_text ''hello, I have a problem'') = [''greet'', ''complaint'']"
  by code_simp+

lemma norm_help: "normalize_text ''/help'' = ''/help''"
  by code_simp

theorem pending_complaint_routing_witness:
  "pending_task awaiting_product = Some new_task \<and> ttype new_task = ''complaint''
   \<and> \<not> startswith (normalize_text ''hello, I have a problem'') ''/''
   \<and> matching_intents (normalize_text ''hello, I have a problem'') = [''greet'', ''complaint'']
   \<and> (\<exists>s'. handle sample_env ''hello, I have a problem'' awaiting_product
               = Inr (''Got it. Briefly describe the issue.'', s')
          \<and> pending_task s' = Some (new_task\<lparr>product := Some ''hello, I have a problem''\<rparr>))
   \<and> startswith (normalize_text ''/help'') ''/''
   \<and> (\<exists>s'. handle sample_env ''/help'' awaiting_product = Inr (help_text, s')
          \<and> pending_task s' = Some new_task)"
proof -
  note r = pending_complaint_routing [OF pending_awaiting_product(1,2), of _ sample_env]
  let ?x = "''hello, I have a problem''"
  let ?a = "add_history sample_env ''user'' ?x awaiting_product"
  from r [of ?x] hello_problem(1)
  have "handle sample_env ?x awaiting_product = Inr (continue_complaint sample_env ?x new_task ?a)"
    by simp
  then have one: "\<exists>s'. handle sample_env ?x awaiting_product
               = Inr (''Got it. Briefly describe the issue.'', s')
          \<and> pending_task s' = Some (new_task\<lparr>product := Some ?x\<rparr>)"
    by (simp add: continue_product [OF pending_awaiting_product(3)] reply_def)
  have slash: "startswith (normalize_text ''/help'') ''/''"
    by (simp add: norm_help startswith_def)
  with r [of "''/help''"]
  have "handle sample_env ''/help'' awaiting_product
      = Inr (handle_help sample_env (add_history sample_env ''user'' ''/help'' awaiting_product))"
    by (simp add: norm_help detect_help dispatch_help)
  then have two: "\<exists>s'. handle sample_env ''/help'' awaiting_product = Inr (help_text, s')
          \<and> pending_task s' = Some new_task"
    by (simp add: handle_help_def reply_def pending_awaiting_product)
  from pending_awaiting_product hello_problem one slash two show ?thesis by blast
qed

lemma handle_complaint_final:
  assumes "pending_task s = Some t" and "ttype t = ''complaint''"
    and "product t = Some p" and "issue t = Some i" and "order_id t = None"
  shows "handle_complaint E x s =
       reply E (ticket_text (10000 + rand E (tick s) mod 90000) p i
                  (if lower (strip x) = ''none'' then None else Some (strip x)))
         (s\<lparr>tick := Suc (tick s), pending_task := None\<rparr>)"
  using assms by (simp add: handle_complaint_pending continue_order_id)

lemma awaiting_order_id_facts:
  "pending_task awaiting_order_id
     = Some (new_task\<lparr>product := Some ''Laptop'', issue := Some ''Screen flickers''\<rparr>)"
  "tick awaiting_order_id = 0"
  by (simp_all add: awaiting_order_id_def Chatbot_init_def load_def)

lemma spaced_order_id: "lower '' A-77 '' \<noteq> ''none''" "lower ''A-77'' \<noteq> ''none''"
  "strip '' A-77 '' = ''A-77''"
  by code_simp+

text \<open>
  C6, as the claim states it, fails: the reply \<^verbatim>\<open>" A-77 "\<close> is not \<^verbatim>\<open>none\<close>, and the
  confirmation holds the order id \<^verbatim>\<open>A-77\<close>, not the reply as it was typed.
\<close>

theorem order_id_not_verbatim:
  "lower '' A-77 '' \<noteq> ''none''
   \<and> fst (handle_complaint sample_env '' A-77 '' awaiting_order_id)
       = ticket_text 10000 ''Laptop'' ''Screen flickers'' (Some ''A-77'')
   \<and> ticket_text 10000 ''Laptop'' ''Screen flickers'' (Some ''A-77'')
       \<noteq> ticket_text 10000 ''Laptop'' ''Screen flickers'' (Some '' A-77 '')"
proof -
  have "fst (handle_complaint sample_env '' A-77 '' awaiting_order_id)
       = ticket_text 10000 ''Laptop'' ''Screen flickers'' (Some ''A-77'')"
    by (subst handle_complaint_final [OF awaiting_order_id_facts(1)])
       (simp_all add: new_task_def awaiting_order_id_facts(2) spaced_order_id sample_env_def)
  moreover have "ticket_text 10000 ''Laptop'' ''Screen flickers'' (Some ''A-77'')
       \<noteq> ticket_text 10000 ''Laptop'' ''Screen flickers'' (Some '' A-77 '')"
    by (simp add: ticket_text_def order_id_shown_def)
  ultimately show ?thesis using spaced_order_id(1) by simp
qed

text \<open>
  C6, amended. On the last transition the reply is stripped of the white space around it.
  When the stripped reply is \<^verbatim>\<open>none\<close> in any case the slot is \<^verbatim>\<open>None\<close> and the confirmation
  shows \<^verbatim>\<open>N/A\<close>; any other stripped reply is the order id and the confirmation shows it,
  as \<^verbatim>\<open>N/A\<close> when it is empty. The task is then no longer pending.
\<close>

theorem order_id_capture:
  assumes "pending_task s = Some t" and "ttype t = ''complaint''"
    and "product t = Some p" and "issue t = Some i" and "order_id t = None"
  shows "fst (handle_complaint E x s) =
           ''Thanks! Ticket TKT-'' @ str_nat (10000 + rand E (tick s) mod 90000) @
           '' created. Product: '' @ p @ ''. Issue: '' @ i @ ''. Order ID: '' @
           (if lower (strip x) = ''none'' \<or> strip x = [] then ''N/A'' else strip x) @
           ''. Our team will follow up.''
         \<and> pending_task (snd (handle_complaint E x s)) = None"
  by (simp add: handle_complaint_final [OF assms] ticket_text_def order_id_shown_def)

lemma none_order_id: "strip '' None '' = ''None''" "lower ''None'' = ''none''"
  by code_simp+

theorem order_id_capture_witness:
  "pending_task awaiting_order_id
     = Some (new_task\<lparr>product := Some ''Laptop'', issue := Some ''Screen flickers''\<rparr>)
   \<and> fst (handle_complaint sample_env '' None '' awaiting_order_id) =
        ''Thanks! Ticket TKT-10000 created. Product: Laptop. Issue: Screen flickers. Order ID: N/A. Our team will follow up.''
   \<and> fst (handle_complaint sample_env '' A-77 '' awaiting_order_id) =
        ''Thanks! Ticket TKT-10000 created. Product: Laptop. Issue: Screen flickers. Order ID: A-77. Our team will follow up.''"
proof -
  have t: "ttype (new_task\<lparr>product := Some ''Laptop'', issue := Some ''Screen flickers''\<rparr>)
        = ''complaint''"
    "product (new_task\<lparr>product := Some ''Laptop'', issue := Some ''Screen flickers''\<rparr>)
        = Some ''Laptop''"
    "issue (new_task\<lparr>product := Some ''Laptop'', issue := Some ''Screen flickers''\<rparr>)
        = Some ''Screen flickers''"
    "order_id (new_task\<lparr>product := Some ''Laptop'', issue := Some ''Screen flickers''\<rparr>) = None"
    by (simp_all add: new_task_def)
  have n: "str_nat (10000 + rand sample_env (tick awaiting_order_id) mod 90000) = ''10000''"
    by (simp add: awaiting_order_id_facts(2) sample_env_def str_nat.simps digit_char_def)
  note c = order_id_capture [OF awaiting_order_id_facts(1) t, of sample_env]
  from c [of "'' None ''"] c [of "'' A-77 ''"] awaiting_order_id_facts(1)
  show ?thesis
    by (simp add: n none_order_id spaced_order_id)
qed

section \<open>Reset during a complaint\<close>

lemma handle_reset_run:
  assumes "normalize_text x = ''/reset''"
  shows "\<exists>s'. handle E x s = Inr (''Memory cleared. Fresh start!'', s')
     \<and> pending_task s' = pending_task s
     \<and> user_name (data s') = None
     \<and> preferences (data s') = []
     \<and> history (data s') =
         [\<lparr>e_time = clock E (tick s + 3), e_role = ''assistant'',
            e_text = ''Memory cleared. Fresh start!''\<rparr>]"
proof -
  have "startswith (normalize_text x) ''/''"
    by (simp add: assms startswith_def)
  then have "handle E x s = Inr (handle_reset E (add_history E ''user'' x s))"
    by (simp add: handle_command assms detect_reset dispatch_reset)
  then show ?thesis
    by (simp add: handle_reset_def reply_def history_add_history default_data_def last_n_def
        numeral_3_eq_3)
qed

lemma norm_reset: "normalize_text ''/reset'' = ''/reset''"
  by code_simp

text \<open>
  C10, as the claim states it, fails in one point: after \<^verbatim>\<open>/reset\<close> the history is not
  empty. It holds one entry, the reply to the reset, which \<open>reply\<close> appends after the
  record was cleared.
\<close>

theorem reset_history_not_empty:
  "\<exists>s'. handle sample_env ''/reset'' awaiting_product = Inr (''Memory cleared. Fresh start!'', s')
     \<and> history (data s') =
         [\<lparr>e_time = clock sample_env 3, e_role = ''assistant'',
            e_text = ''Memory cleared. Fresh start!''\<rparr>]
     \<and> history (data s') \<noteq> []"
proof -
  have "tick awaiting_product = 0"
    by (simp add: awaiting_product_def Chatbot_init_def load_def)
  with handle_reset_run [OF norm_reset, of sample_env awaiting_product]
  show ?thesis by auto
qed

text \<open>
  C10, amended. \<^verbatim>\<open>/reset\<close> sets the name to \<^verbatim>\<open>None\<close>, empties the preferences, and
  replaces the history by one entry, the reply \<^verbatim>\<open>Memory cleared. Fresh start!\<close>; it leaves
  \<open>pending_task\<close> as it was. A complaint that was pending is still pending, and the
  next text that is not a command is taken as its next slot value.
\<close>

theorem reset_keeps_pending_task:
  assumes "normalize_text x = ''/reset''"
  shows "\<exists>s'. handle E x s = Inr (''Memory cleared. Fresh start!'', s')
     \<and> pending_task s' = pending_task s
     \<and> user_name (data s') = None
     \<and> preferences (data s') = []
     \<and> history (data s') =
         [\<lparr>e_time = clock E (tick s + 3), e_role = ''assistant'',
            e_text = ''Memory cleared. Fresh start!''\<rparr>]
     \<and> (\<forall>t y. pending_task s = Some t \<and> ttype t = ''complaint''
            \<and> \<not> startswith (normalize_text y) ''/'' \<longrightarrow>
          handle E y s' = Inr (continue_complaint E y t (add_history E ''user'' y s')))"
proof -
  from handle_reset_run [OF assms, of E s]
  obtain s' where h: "handle E x s = Inr (''Memory cleared. Fresh start!'', s')"
    and p: "pending_task s' = pending_task s"
    and rest: "user_name (data s') = None" "preferences (data s') = []"
      "history (data s') =
         [\<lparr>e_time = clock E (tick s + 3), e_role = ''assistant'',
            e_text = ''Memory cleared. Fresh start!''\<rparr>]"
    by blast
  have next_turn: "handle E y s' = Inr (continue_complaint E y t (add_history E ''user'' y s'))"
    if "pending_task s = Some t" and "ttype t = ''complaint''"
      and "\<not> startswith (normalize_text y) ''/''" for t y
  proof -
    have a: "pending_task s' = Some t" using p that(1) by simp
    then have b: "pending_task (add_history E ''user'' y s') = Some t" by simp
    show ?thesis
      using that(3) by (simp add: handle_pending [OF a that(2)] handle_complaint_pending [OF b that(2)])
  qed
  from h p rest next_turn show ?thesis by blast
qed

lemma laptop_no_command: "\<not> startswith (normalize_text ''Laptop'') ''/''"
  by code_simp

theorem reset_keeps_pending_task_witness:
  "normalize_text ''/reset'' = ''/reset''
   \<and> (\<exists>s' s''. handle sample_env ''/reset'' awaiting_product
                  = Inr (''Memory cleared. Fresh start!'', s')
        \<and> pending_task s' = Some new_task
        \<and> user_name (data s') = None
        \<and> length (history (data s')) = 1
        \<and> handle sample_env ''Laptop'' s' = Inr (''Got it. Briefly describe the issue.'', s'')
        \<and> pending_task s'' = Some (new_task\<lparr>product := Some ''Laptop''\<rparr>))"
proof -
  from reset_keeps_pending_task [OF norm_reset, of sample_env awaiting_product]
  obtain s' where h: "handle sample_env ''/reset'' awaiting_product
                  = Inr (''Memory cleared. Fresh start!'', s')"
    and p: "pending_task s' = pending_task awaiting_product"
    and u: "user_name (data s') = None"
    and hist: "history (data s') =
         [\<lparr>e_time = clock sample_env (tick awaiting_product + 3), e_role = ''assistant'',
            e_text = ''Memory cleared. Fresh start!''\<rparr>]"
    and nxt: "\<forall>t y. pending_task awaiting_product = Some t \<and> ttype t = ''complaint''
            \<and> \<not> startswith (normalize_text y) ''/'' \<longrightarrow>
          handle sample_env y s'
            = Inr (continue_complaint sample_env y t (add_history sample_env ''user'' y s'))"
    by blast
  from nxt pending_awaiting_product(1,2) laptop_no_command
  have "handle sample_env ''Laptop'' s'
      = Inr (continue_complaint sample_env ''Laptop'' new_task
               (add_history sample_env ''user'' ''Laptop'' s'))"
    by blast
  then have "\<exists>s''. handle sample_env ''Laptop'' s'
        = Inr (''Got it. Briefly describe the issue.'', s'')
      \<and> pending_task s'' = Some (new_task\<lparr>product := Some ''Laptop''\<rparr>)"
    by (simp add: continue_product [OF pending_awaiting_product(3)] reply_def)
  with h p u hist pending_awaiting_product(1) norm_reset show ?thesis
    by auto
qed

section \<open>The calculator\<close>

lemma calc_sources:
  "strip ''=2+2'' = ''=2+2''" "re_sub calc_prefix_re [] ''2+2'' = ''2+2''"
  "strip ''=10/0'' = ''=10/0''" "re_sub calc_prefix_re [] ''10/0'' = ''10/0''"
  "strip ''=import os'' = ''=import os''" "re_sub calc_prefix_re [] ''import os'' = ''import os''"
  by code_simp+

lemma str_val_4: "str_val (VInt 4) = Inr ''4''"
  by (simp add: str_val_def str_int_def str_nat.simps digit_char_def)

text \<open>
  C7. Given the trees that \<^verbatim>\<open>ast.parse\<close> builds for \<^verbatim>\<open>2+2\<close> and \<^verbatim>\<open>10/0\<close>, and given that
  it raises on \<^verbatim>\<open>import os\<close>: \<open>eval_expr\<close> returns 4 on the first; on the second it
  fails with the division error, which the calculator turns into a reply; on the third it
  fails with the parser's exception, which the calculator turns into a reply as well.
\<close>

theorem calculator_examples:
  assumes "ast_parse E ''2+2'' = Inr (BinOp (Constant (CInt 2)) Add (Constant (CInt 2)))"
    and "ast_parse E ''10/0'' = Inr (BinOp (Constant (CInt 10)) Div (Constant (CInt 0)))"
    and "ast_parse E ''import os'' = Inl e"
  shows "snd (eval_expr E ''2+2'') = Inr (VInt 4)
       \<and> fst (handle_calculator E ''=2+2'' s) = ''Result: 4''
       \<and> snd (eval_expr E ''10/0'') = Inl (ZeroDivisionError ''division by zero'')
       \<and> fst (handle_calculator E ''=10/0'' s)
           = ''Sorry, I couldn't evaluate that. (division by zero)''
       \<and> snd (eval_expr E ''import os'') = Inl e
       \<and> fst (handle_calculator E ''=import os'' s)
           = ''Sorry, I couldn't evaluate that. ('' @ str_exc e @ '')''"
proof -
  have a: "snd (eval_expr E ''2+2'') = Inr (VInt 4)"
    by (simp add: eval_expr_def assms(1) binop_def int_binop_def)
  have b: "snd (eval_expr E ''10/0'') = Inl (ZeroDivisionError ''division by zero'')"
    by (simp add: eval_expr_def assms(2) binop_def int_binop_def)
  have c: "snd (eval_expr E ''import os'') = Inl e"
    by (simp add: eval_expr_def assms(3))
  have a': "fst (handle_calculator E ''=2+2'' s) = ''Result: 4''"
    by (simp add: handle_calculator_def calc_sources startswith_def a str_val_4)
  have b': "fst (handle_calculator E ''=10/0'' s)
           = ''Sorry, I couldn't evaluate that. (division by zero)''"
    by (simp add: handle_calculator_def calc_sources startswith_def b failure_text_def)
  have c': "fst (handle_calculator E ''=import os'' s)
           = ''Sorry, I couldn't evaluate that. ('' @ str_exc e @ '')''"
    by (simp add: handle_calculator_def calc_sources startswith_def c failure_text_def)
  from a a' b b' c c' show ?thesis by simp
qed

theorem calculator_examples_witness:
  "ast_parse sample_env ''2+2'' = Inr (BinOp (Constant (CInt 2)) Add (Constant (CInt 2)))
   \<and> ast_parse sample_env ''10/0'' = Inr (BinOp (Constant (CInt 10)) Div (Constant (CInt 0)))
   \<and> ast_parse sample_env ''import os'' = Inl (SyntaxError ''invalid syntax (<unknown>, line 1)'')
   \<and> snd (eval_expr sample_env ''2+2'') = Inr (VInt 4)
   \<and> fst (handle_calculator sample_env ''=2+2'' (Chatbot_init Absent)) = ''Result: 4''
   \<and> snd (eval_expr sample_env ''10/0'') = Inl (ZeroDivisionError ''division by zero'')
   \<and> fst (handle_calculator sample_env ''=10/0'' (Chatbot_init Absent))
       = ''Sorry, I couldn't evaluate that. (division by zero)''
   \<and> snd (eval_expr sample_env ''import os'')
       = Inl (SyntaxError ''invalid syntax (<unknown>, line 1)'')
   \<and> fst (handle_calculator sample_env ''=import os'' (Chatbot_init Absent))
       = ''Sorry, I couldn't evaluate that. (invalid syntax (<unknown>, line 1))''"
proof -
  have p: "ast_parse sample_env ''2+2'' = Inr (BinOp (Constant (CInt 2)) Add (Constant (CInt 2)))"
    "ast_parse sample_env ''10/0'' = Inr (BinOp (Constant (CInt 10)) Div (Constant (CInt 0)))"
    "ast_parse sample_env ''import os'' = Inl (SyntaxError ''invalid syntax (<unknown>, line 1)'')"
    by (simp_all add: sample_env_def sample_parse_def)
  from calculator_examples [OF p, of "Chatbot_init Absent"] p show ?thesis
    by simp
qed

text \<open>
  A tree that the check of \<open>visit\<close> refuses is never evaluated to a value: \<open>eval_node\<close>
  fails on it, whatever it computed on the way.
\<close>

lemma eval_fails_when_disallowed:
  "visit t \<noteq> Inr () \<Longrightarrow> \<exists>e. snd (eval_node E t) = Inl e"
proof (induction t)
  case (Constant c)
  then show ?case by simp
next
  case (BinOp l op r)
  then show ?case
    by (cases "eval_node E l"; cases "eval_node E r"; cases "snd (eval_node E l)";
        cases "snd (eval_node E r)")
       (auto simp: ALLOWED_operator_def split: sum.splits if_splits)
next
  case (UnaryOp op x)
  then show ?case
    by (cases "eval_node E x"; cases "snd (eval_node E x)")
       (auto simp: ALLOWED_unaryop_def split: if_splits)
next
  case (Name n)
  then show ?case by simp
next
  case (Call f args kws)
  show ?case by simp
next
  case (OtherNode k cs)
  show ?case by simp
qed

text \<open>
  C3. The evaluator does not reject a disallowed node before it computes. On
  \<^verbatim>\<open>(1+2)+[3]\<close>, whose \<^verbatim>\<open>List\<close> node the check of \<open>visit\<close> refuses, \<open>eval_node\<close>
  carries out the addition of 1 and 2 and only then fails at the \<^verbatim>\<open>List\<close> node, with the
  message of its last line and not the message of \<open>visit\<close>; \<open>eval_expr\<close> does the
  same on any source that parses to this tree.
\<close>

theorem eval_computes_before_rejecting:
  "visit sum_with_list = Inl (ValueError ''Disallowed expression'')
   \<and> eval_node E sum_with_list
       = ([BinEv Add (VInt 1) (VInt 2)], Inl (ValueError ''Unsupported expression''))
   \<and> eval_expr (E\<lparr>ast_parse := (\<lambda>src. Inr sum_with_list)\<rparr>) ''(1+2)+[3]''
       = ([BinEv Add (VInt 1) (VInt 2)], Inl (ValueError ''Unsupported expression''))"
  by (simp add: sum_with_list_def eval_expr_def ALLOWED_operator_def binop_def int_binop_def)

section \<open>CSV insights\<close>

text \<open>
  The values of a column are as many as the rows whose cell \<^verbatim>\<open>float\<close> accepts; a row
  whose cell is missing or is no number adds nothing, and raises nothing.
\<close>

lemma column_values_count:
  "length (column_values rows col) = length (filter (cell_parses col) rows)"
  by (induction rows)
     (auto simp: column_values_def cell_parses_def List.map_filter_simps split: option.splits)

lemma column_values_append:
  "column_values (rs @ rs') col = column_values rs col @ column_values rs' col"
  by (simp add: column_values_def List.map_filter_def)

lemma column_values_skip:
  assumes "\<not> cell_parses col r"
  shows "column_values (rs @ r # rs') col = column_values (rs @ rs') col"
proof -
  from assms have "column_values [r] col = []"
    by (auto simp: column_values_def cell_parses_def List.map_filter_simps split: option.splits)
  then show ?thesis
    using column_values_append [of rs "[r] @ rs'" col] column_values_append [of "[r]" rs' col]
      column_values_append [of rs rs' col]
    by simp
qed

text \<open>
  On finite values the line reports the count, the mean, the median and the population
  standard deviation, each of the three in the format \<^verbatim>\<open>.3f\<close>.
\<close>

lemma stats_text_finite:
  "stats_text col (map Finite xs) =
     Inr (''Quick stats for '' @ [CHR 0x27] @ col @ [CHR 0x27] @ '': count='' @
          str_nat (length xs) @
          '', mean='' @ fmt3 (Finite (sum_list xs / real (length xs))) @
          '', median='' @ fmt3 (stats_median xs) @
          '', stdev='' @
          fmt3 (Finite (sqrt (sum_list (map (\<lambda>x. (x - sum_list xs / real (length xs))\<^sup>2) xs)
                                / real (length xs)))))"
proof -
  have "list_all is_Finite (map Finite xs)" by (induction xs) simp_all
  moreover have "map real_of (map Finite xs) = xs" by (induction xs) simp_all
  ultimately show ?thesis
    by (simp add: stats_text_def stats_mean_def stats_pstdev_def)
qed

lemma fmt3_two: "fmt3 (Finite 2) = ''2.000''"
  by (simp add: fmt3_def round_half_even_def Let_def str_nat.simps digit_char_def)

lemma round_sqrt_two_thirds: "round_half_even (sqrt (2 / 3) * 1000) = 816"
proof -
  have lo: "816 / 1000 \<le> sqrt (2 / 3 :: real)"
    by (rule real_le_rsqrt) (simp add: power2_eq_square)
  have hi: "sqrt (2 / 3 :: real) < 8165 / 10000"
    by (rule real_less_lsqrt) (simp_all add: power2_eq_square)
  have fl: "\<lfloor>sqrt (2 / 3 :: real) * 1000\<rfloor> = 816"
    using lo hi by (intro floor_unique) simp_all
  have "sqrt (2 / 3 :: real) * 1000 - 816 < 1 / 2" using hi by simp
  then show ?thesis
    by (simp add: round_half_even_def Let_def fl)
qed

lemma fmt3_sqrt_two_thirds: "fmt3 (Finite (sqrt (2 / 3))) = ''0.816''"
  by (simp add: fmt3_def Let_def round_sqrt_two_thirds str_nat.simps digit_char_def)

lemma median_123: "stats_median [1, 2, 3] = Finite 2"
  by (simp add: stats_median_def Let_def)

lemma stats_text_123:
  "stats_text ''Sales'' [Finite 1, Finite 2, Finite 3] =
     Inr (''Quick stats for '' @ [CHR 0x27] @ ''Sales'' @ [CHR 0x27] @
          '': count=3, mean=2.000, median=2.000, stdev=0.816'')"
proof -
  have v: "sum_list (map (\<lambda>x. (x - 2)\<^sup>2) [1, 2, 3 :: real]) / 3 = 2 / 3"
    by (simp add: power2_eq_square)
  from stats_text_finite [of "''Sales''" "[1, 2, 3]"] show ?thesis
    by (simp add: v fmt3_two fmt3_sqrt_two_thirds median_123 str_nat.simps digit_char_def)
qed

lemma cells_123:
  "float_of_str ''1'' = Some (Finite 1)" "float_of_str ''2'' = Some (Finite 2)"
  "float_of_str ''3'' = Some (Finite 3)" "float_of_str ''inf'' = Some PInf"
  by code_simp+

lemma load_sales:
  "normalize_text ''/loadcsv sales.csv'' = ''/loadcsv sales.csv''"
  "detect_intent ''/loadcsv sales.csv''
     = (''load_csv'', Some \<lparr>m_start = 0, m_end = 18, m_groups = [(1, ''sales.csv'')]\<rparr>)"
  "strip_quotes (strip ''sales.csv'') = ''sales.csv''"
  by code_simp+

lemma dispatch_load_csv:
  "dispatch E (''load_csv'', Some m) raw nt s = handle_load_csv E m s"
  by (simp add: dispatch_def)

lemma handle_loadcsv_sales:
  "handle E ''/loadcsv sales.csv'' s =
     handle_load_csv E \<lparr>m_start = 0, m_end = 18, m_groups = [(1, ''sales.csv'')]\<rparr>
       (add_history E ''user'' ''/loadcsv sales.csv'' s)"
proof -
  have "startswith (normalize_text ''/loadcsv sales.csv'') ''/''"
    by (simp add: load_sales startswith_def)
  then show ?thesis
    by (simp add: handle_command load_sales dispatch_load_csv)
qed

text \<open>
  C8. On the column Sales = [1, 2, 3] the reply reports count=3, mean=2.000, median=2.000 and
  stdev=0.816, the population standard deviation. On the column Sales = [1, inf] the cell
  \<^verbatim>\<open>inf\<close> is accepted by \<^verbatim>\<open>float\<close>, the statistics raise, and \<open>handle\<close> reports
  nothing: the exception leaves the program.
\<close>

theorem csv_stats_raise_on_inf:
  "(\<exists>s'. handle (E\<lparr>read_csv := (\<lambda>p. sales_123)\<rparr>) ''/loadcsv sales.csv'' s
           = Inr (''Loaded sales.csv with 3 rows and 1 columns.'' @ [CHR 0x0A] @
                  ''Quick stats for '' @ [CHR 0x27] @ ''Sales'' @ [CHR 0x27] @
                  '': count=3, mean=2.000, median=2.000, stdev=0.816'', s'))
   \<and> handle (E\<lparr>read_csv := (\<lambda>p. sales_inf)\<rparr>) ''/loadcsv sales.csv'' s = Inl no_numerator"
proof -
  have num: "numeric_header [[(''Sales'', Some ''1'')], [(''Sales'', Some ''2'')],
      [(''Sales'', Some ''3'')]] ''Sales''"
    "numeric_header [[(''Sales'', Some ''1'')], [(''Sales'', Some ''inf'')]] ''Sales''"
    by (simp_all add: numeric_header_def row_get_def cells_123)
  have vals: "column_values [[(''Sales'', Some ''1'')], [(''Sales'', Some ''2'')],
      [(''Sales'', Some ''3'')]] ''Sales'' = [Finite 1, Finite 2, Finite 3]"
    "column_values [[(''Sales'', Some ''1'')], [(''Sales'', Some ''inf'')]] ''Sales''
      = [Finite 1, PInf]"
    by (simp_all add: column_values_def List.map_filter_simps row_get_def cells_123)
  have bad: "stats_text ''Sales'' [Finite 1, PInf] = Inl no_numerator"
    by (simp add: stats_text_def)
  have one: "\<exists>s'. handle (E\<lparr>read_csv := (\<lambda>p. sales_123)\<rparr>) ''/loadcsv sales.csv'' s
           = Inr (''Loaded sales.csv with 3 rows and 1 columns.'' @ [CHR 0x0A] @
                  ''Quick stats for '' @ [CHR 0x27] @ ''Sales'' @ [CHR 0x27] @
                  '': count=3, mean=2.000, median=2.000, stdev=0.816'', s')"
    by (simp add: handle_loadcsv_sales handle_load_csv_def group_def load_sales sales_123_def
        Let_def num vals stats_text_123 reply_def str_nat.simps digit_char_def)
  have two: "handle (E\<lparr>read_csv := (\<lambda>p. sales_inf)\<rparr>) ''/loadcsv sales.csv'' s
      = Inl no_numerator"
    by (simp add: handle_loadcsv_sales handle_load_csv_def group_def load_sales sales_inf_def
        Let_def num vals bad)
  from one two show ?thesis by simp
qed

end
